theory Spec2Isabelle
  imports Main "HOL-Library.Sublist" "HOL-Library.Multiset"
begin

section \<open>Marine Mentors backend: three revisions of one Express server\<close>

text \<open>
  The repository holds three revisions of the same server:
  \<^item> \<open>src/server.js\<close>, the minimal revision; its definitions carry the suffix \<open>_v1\<close>;
  \<^item> \<open>src/unnamed/part_000\<close>, lines 1 to 176, the middle revision (suffix \<open>_v2\<close>);
  \<^item> \<open>src/unnamed/part_000\<close>, lines 178 to 524, the richer revision (suffix \<open>_v3\<close>).

  A handler is a function of the process environment, the clock, the outcome of the store
  calls it may issue, the store and the request; it returns the response passed to
  \<open>res.status(..).json(..)\<close> and the store after the request.
\<close>

subsection \<open>JavaScript values handed to \<open>res.json\<close>\<close>

datatype json =
    JUndefined
  | JNull
  | JBool bool
  | JNum nat
  | JStr string
  | JDate nat
  | JArr "json list"
  | JObj "(string \<times> json) list"

text \<open>A thrown \<open>Error\<close>: the handlers read \<open>error.message\<close> and \<open>error.stack\<close>.\<close>

datatype exn = Error (message: string) (stack: string)

record response =
  status :: nat
  body :: json

text \<open>\<open>res.json(x)\<close> without \<open>res.status\<close> answers 200.\<close>

definition res_json :: "json \<Rightarrow> response" where
  "res_json b = \<lparr>status = 200, body = b\<rparr>"

definition res_status_json :: "nat \<Rightarrow> json \<Rightarrow> response" where
  "res_status_json c b = \<lparr>status = c, body = b\<rparr>"

text \<open>Property lookup on an object literal; \<open>None\<close> where the value is no object or has no such key.\<close>

fun obj_get :: "string \<Rightarrow> json \<Rightarrow> json option" where
  "obj_get k (JObj kvs) = map_of kvs k"
| "obj_get k _ = None"

fun obj_keys :: "json \<Rightarrow> string list" where
  "obj_keys (JObj kvs) = map fst kvs"
| "obj_keys _ = []"

text \<open>A nullable column as the driver returns it: SQL NULL is JavaScript \<open>null\<close>.\<close>

definition opt_str :: "string option \<Rightarrow> json" where
  "opt_str s = (case s of None \<Rightarrow> JNull | Some x \<Rightarrow> JStr x)"

definition opt_date :: "nat option \<Rightarrow> json" where
  "opt_date d = (case d of None \<Rightarrow> JNull | Some t \<Rightarrow> JDate t)"

definition opt_bool :: "bool option \<Rightarrow> json" where
  "opt_bool b = (case b of None \<Rightarrow> JNull | Some x \<Rightarrow> JBool x)"

subsection \<open>Requests\<close>

text \<open>
  \<open>req.body\<close> after \<open>express.json()\<close>: the five fields the handlers destructure, each a
  string or absent (\<open>None\<close> is \<open>undefined\<close>). A body may carry any JSON value in a field;
  numbers, booleans, arrays and objects are outside this model, and what is proved below
  is proved of requests whose fields are strings or missing.
\<close>

record req_body =
  fullName :: "string option"
  email :: "string option"
  phone :: "string option"
  classLevel :: "string option"
  password :: "string option"

text \<open>JavaScript \<open>!x\<close> on a string or \<open>undefined\<close>: true for \<open>undefined\<close> and for the empty string.\<close>

definition falsy :: "string option \<Rightarrow> bool" where
  "falsy x = (case x of None \<Rightarrow> True | Some s \<Rightarrow> s = [])"

subsection \<open>The store\<close>

text \<open>
  Rows of the \<open>users\<close> and \<open>courses\<close> tables. Columns that an INSERT of the repository can
  leave NULL are options. The \<open>id\<close> of a new user is drawn from the sequence
  \<open>users_id_seq\<close> (the identifier is generated by the store, never by a handler).
\<close>

record user_row =
  id_col :: nat
  full_name :: "string option"
  email_col :: "string option"
  phone_col :: "string option"
  class_level :: "string option"
  password_hash :: string
  registration_date :: "nat option"
  is_active :: "bool option"
  trial_used :: "bool option"

record course_row =
  course_id :: nat
  course_is_active :: "bool option"
  course_fields :: "(string \<times> json) list"

record store =
  users :: "user_row list"
  courses :: "course_row list"
  users_id_seq :: nat

text \<open>
  The CREATE TABLE statement of \<open>users\<close> is not among the sources. The column defaults that
  an INSERT relies on when it does not name a column are therefore parameters.
\<close>

record schema =
  is_active_default :: "bool option"
  trial_used_default :: "bool option"
  registration_date_default :: "nat \<Rightarrow> nat option"

text \<open>
  The k-th \<open>pool.query\<close> call of a request (counted from 0) rejects with \<open>e\<close> when the
  fault plan maps \<open>k\<close> to \<open>e\<close>, whatever the reason (connection lost, constraint violated);
  otherwise it resolves to the result of the statement. A statement that rejects leaves
  the tables as they were; whether a rejected INSERT has drawn from the sequence is not
  tracked.
\<close>

type_synonym faults = "nat \<rightharpoonup> exn"

definition pool_query :: "faults \<Rightarrow> nat \<Rightarrow> 'a \<Rightarrow> exn + 'a" where
  "pool_query fs k result = (case fs k of Some e \<Rightarrow> Inl e | None \<Rightarrow> Inr result)"

text \<open>\<open>SELECT id FROM users WHERE email = $1\<close>; a NULL parameter equals no row.\<close>

definition select_id_by_email :: "store \<Rightarrow> string option \<Rightarrow> nat list" where
  "select_id_by_email db e =
     map id_col (filter (\<lambda>u. e \<noteq> None \<and> email_col u = e) (users db))"

text \<open>\<open>SELECT * FROM users WHERE email = $1\<close>\<close>

definition select_user_by_email :: "store \<Rightarrow> string option \<Rightarrow> user_row list" where
  "select_user_by_email db e = filter (\<lambda>u. e \<noteq> None \<and> email_col u = e) (users db)"

text \<open>\<open>SELECT * FROM users WHERE email = $1 AND is_active = true\<close>\<close>

definition select_active_user_by_email :: "store \<Rightarrow> string option \<Rightarrow> user_row list" where
  "select_active_user_by_email db e =
     filter (\<lambda>u. e \<noteq> None \<and> email_col u = e \<and> is_active u = Some True) (users db)"

text \<open>\<open>SELECT ... FROM users WHERE id = $1 AND is_active = true\<close>\<close>

definition select_active_user_by_id :: "store \<Rightarrow> nat option \<Rightarrow> user_row list" where
  "select_active_user_by_id db i =
     filter (\<lambda>u. i = Some (id_col u) \<and> is_active u = Some True) (users db)"

text \<open>\<open>SELECT * FROM courses WHERE is_active = true ORDER BY id\<close>\<close>

definition select_active_courses :: "store \<Rightarrow> course_row list" where
  "select_active_courses db =
     sort_key course_id (filter (\<lambda>c. course_is_active c = Some True) (courses db))"

text \<open>
  \<open>SELECT ... FROM users ORDER BY registration_date DESC\<close>: NULL dates come first in a
  descending order, then the dated rows, latest first. The statement leaves the order of
  rows with equal dates open; here they keep the order of the table (the sort is stable
  and the list is reversed before and after it).
\<close>

definition select_all_users :: "store \<Rightarrow> user_row list" where
  "select_all_users db =
     filter (\<lambda>u. registration_date u = None) (users db) @
     rev (sort_key (\<lambda>u. the (registration_date u))
            (rev (filter (\<lambda>u. registration_date u \<noteq> None) (users db))))"

text \<open>
  \<open>INSERT INTO users (full_name, email, phone, class_level, password_hash) VALUES ($1..$5)
  RETURNING ...\<close> of the minimal and the middle revision: the three columns the statement
  does not name take the defaults of the table.
\<close>

definition insert_user_defaults ::
  "schema \<Rightarrow> nat \<Rightarrow> store \<Rightarrow> string option \<Rightarrow> string option \<Rightarrow> string option \<Rightarrow> string option
     \<Rightarrow> string \<Rightarrow> user_row list \<times> store" where
  "insert_user_defaults sch now db fn em ph cl h =
     (let r = \<lparr>id_col = users_id_seq db, full_name = fn, email_col = em, phone_col = ph,
                class_level = cl, password_hash = h,
                registration_date = registration_date_default sch now,
                is_active = is_active_default sch,
                trial_used = trial_used_default sch\<rparr>
      in ([r], db\<lparr>users := users db @ [r], users_id_seq := Suc (users_id_seq db)\<rparr>))"

text \<open>
  \<open>INSERT INTO users (..., registration_date, is_active, trial_used)
  VALUES ($1, $2, $3, $4, $5, NOW(), true, false) RETURNING ...\<close> of the richer revision.
\<close>

definition insert_user_explicit ::
  "nat \<Rightarrow> store \<Rightarrow> string option \<Rightarrow> string option \<Rightarrow> string option \<Rightarrow> string option
     \<Rightarrow> string \<Rightarrow> user_row list \<times> store" where
  "insert_user_explicit now db fn em ph cl h =
     (let r = \<lparr>id_col = users_id_seq db, full_name = fn, email_col = em, phone_col = ph,
                class_level = cl, password_hash = h,
                registration_date = Some now,
                is_active = Some True,
                trial_used = Some False\<rparr>
      in ([r], db\<lparr>users := users db @ [r], users_id_seq := Suc (users_id_seq db)\<rparr>))"

subsection \<open>Process environment and libraries\<close>

text \<open>
  \<open>bcryptjs\<close> and \<open>jsonwebtoken\<close> are libraries outside the repository; the handlers are
  parametric in them. \<open>bcrypt_hash\<close> and \<open>bcrypt_compare\<close> reject when handed
  \<open>undefined\<close>, hence the sum. \<open>jwt_sign payload secret expiresIn now\<close> yields the token
  string; \<open>jwt_verify token secret now\<close> throws or yields the decoded payload, of which the
  profile handler reads \<open>userId\<close> only.
\<close>

record jwt_payload =
  userId :: nat
  email_claim :: "string option"

record jwt_decoded =
  decoded_userId :: "nat option"

record env =
  JWT_SECRET :: string
  NODE_ENV :: "string option"
  table_defaults :: schema
  bcrypt_hash :: "string option \<Rightarrow> nat \<Rightarrow> exn + string"
  bcrypt_compare :: "string option \<Rightarrow> string \<Rightarrow> exn + bool"
  jwt_sign :: "jwt_payload \<Rightarrow> string \<Rightarrow> nat option \<Rightarrow> nat \<Rightarrow> string"
  jwt_verify :: "string \<Rightarrow> string \<Rightarrow> nat \<Rightarrow> exn + jwt_decoded"

text \<open>\<open>expiresIn: '24h'\<close> in seconds.\<close>

definition expires_24h :: nat where
  "expires_24h = 86400"

subsection \<open>Requests as the router sees them\<close>

text \<open>
  A request whose body, if any, \<open>express.json()\<close> has parsed: its method, \<open>req.originalUrl\<close>
  (path and query string), the Authorization header and \<open>req.body\<close>.
\<close>

datatype http_method = GET | HEAD | POST | PUT | DELETE | PATCH | OPTIONS

record request =
  req_method :: http_method
  originalUrl :: string
  authorization :: "string option"
  body_of :: req_body

text \<open>\<open>req.path\<close>, which the router matches: the URL up to the query string.\<close>

definition path :: "request \<Rightarrow> string" where
  "path rq = takeWhile (\<lambda>c. c \<noteq> CHR ''?'') (originalUrl rq)"

text \<open>
  Express 4 compiles a literal route path such as \<open>/health\<close> to the regular expression
  \<open>^\/health\/?$\<close> with the flag \<open>i\<close> (routing is neither case sensitive nor strict by
  default): the path matches whatever the case of its letters, with or without one
  trailing slash.
\<close>

definition lower_char :: "char \<Rightarrow> char" where
  "lower_char c =
     (case map_of (zip ''ABCDEFGHIJKLMNOPQRSTUVWXYZ'' ''abcdefghijklmnopqrstuvwxyz'') c of
        None \<Rightarrow> c
      | Some d \<Rightarrow> d)"

definition route_matches :: "string \<Rightarrow> string \<Rightarrow> bool" where
  "route_matches route p =
     (map lower_char p = map lower_char route \<or>
      map lower_char p = map lower_char route @ ''/'')"

text \<open>\<open>app.get(route, ..)\<close> serves GET and, no HEAD route being registered, HEAD as well.\<close>

definition app_get :: "request \<Rightarrow> string \<Rightarrow> bool" where
  "app_get rq route =
     ((req_method rq = GET \<or> req_method rq = HEAD) \<and> route_matches route (path rq))"

definition app_post :: "request \<Rightarrow> string \<Rightarrow> bool" where
  "app_post rq route = (req_method rq = POST \<and> route_matches route (path rq))"

text \<open>
  \<open>app.use(cors(..))\<close> comes before every route, in each revision: an OPTIONS request is
  taken for a preflight and ended there, with status 204 and no body; every other request
  is passed on.
\<close>

definition cors_preflight :: response where
  "cors_preflight = \<lparr>status = 204, body = JUndefined\<rparr>"

subsection \<open>Rows as JSON\<close>

text \<open>A row of \<open>RETURNING id, full_name, email\<close>.\<close>

definition returning_id_name_email :: "user_row \<Rightarrow> json" where
  "returning_id_name_email r =
     JObj [(''id'', JNum (id_col r)),
           (''full_name'', opt_str (full_name r)),
           (''email'', opt_str (email_col r))]"

text \<open>A row of \<open>SELECT * FROM courses\<close>.\<close>

definition course_json :: "course_row \<Rightarrow> json" where
  "course_json c =
     JObj ((''id'', JNum (course_id c)) #
           (''is_active'', opt_bool (course_is_active c)) # course_fields c)"

section \<open>The minimal revision: \<open>src/server.js\<close>\<close>

definition health_v1 :: response where
  "health_v1 =
     res_json (JObj [(''status'', JStr ''OK''),
                     (''message'', JStr ''Marine Mentors Backend is running!'')])"

definition register_failed_v1 :: response where
  "register_failed_v1 = res_status_json 500 (JObj [(''error'', JStr ''Registration failed'')])"

definition register_v1 :: "env \<Rightarrow> nat \<Rightarrow> faults \<Rightarrow> store \<Rightarrow> req_body \<Rightarrow> response \<times> store" where
  "register_v1 ev now fs db b =
     (case pool_query fs 0 (select_id_by_email db (email b)) of
        Inl e \<Rightarrow> (register_failed_v1, db)
      | Inr existingUser \<Rightarrow>
          if length existingUser > 0
          then (res_status_json 400 (JObj [(''error'', JStr ''User already exists'')]), db)
          else
            (case bcrypt_hash ev (password b) 10 of
               Inl e \<Rightarrow> (register_failed_v1, db)
             | Inr passwordHash \<Rightarrow>
                 (case pool_query fs 1
                         (insert_user_defaults (table_defaults ev) now db
                            (fullName b) (email b) (phone b) (classLevel b) passwordHash) of
                    Inl e \<Rightarrow> (register_failed_v1, db)
                  | Inr (rows, db') \<Rightarrow>
                      (case rows of
                         [] \<Rightarrow> (register_failed_v1, db')
                       | r # _ \<Rightarrow>
                           let token = jwt_sign ev \<lparr>userId = id_col r, email_claim = None\<rparr>
                                         (JWT_SECRET ev) None now
                           in (res_json (JObj [(''success'', JBool True),
                                               (''token'', JStr token),
                                               (''user'', returning_id_name_email r)]),
                               db')))))"

definition login_failed_v1 :: response where
  "login_failed_v1 = res_status_json 500 (JObj [(''error'', JStr ''Login failed'')])"

definition invalid_credentials_v1 :: response where
  "invalid_credentials_v1 = res_status_json 400 (JObj [(''error'', JStr ''Invalid credentials'')])"

definition login_v1 :: "env \<Rightarrow> nat \<Rightarrow> faults \<Rightarrow> store \<Rightarrow> req_body \<Rightarrow> response \<times> store" where
  "login_v1 ev now fs db b =
     (case pool_query fs 0 (select_user_by_email db (email b)) of
        Inl e \<Rightarrow> (login_failed_v1, db)
      | Inr rows \<Rightarrow>
          (case rows of
             [] \<Rightarrow> (invalid_credentials_v1, db)
           | u # _ \<Rightarrow>
               (case bcrypt_compare ev (password b) (password_hash u) of
                  Inl e \<Rightarrow> (login_failed_v1, db)
                | Inr validPassword \<Rightarrow>
                    if \<not> validPassword then (invalid_credentials_v1, db)
                    else
                      let token = jwt_sign ev \<lparr>userId = id_col u, email_claim = None\<rparr>
                                    (JWT_SECRET ev) None now
                      in (res_json (JObj [(''success'', JBool True),
                                          (''token'', JStr token),
                                          (''user'', JObj [(''id'', JNum (id_col u)),
                                                           (''fullName'', opt_str (full_name u)),
                                                           (''email'', opt_str (email_col u))])]),
                          db))))"

definition courses_v1 :: "faults \<Rightarrow> store \<Rightarrow> response \<times> store" where
  "courses_v1 fs db =
     (case pool_query fs 0 (select_active_courses db) of
        Inl e \<Rightarrow> (res_status_json 500 (JObj [(''error'', JStr ''Failed to fetch courses'')]), db)
      | Inr rows \<Rightarrow>
          (res_json (JObj [(''success'', JBool True),
                           (''courses'', JArr (map course_json rows))]), db))"

text \<open>
  The \<open>cors\<close> middleware, then the routes in the order of their registration. \<open>None\<close>: no
  route of the application matches, the application itself sends nothing and the
  framework's built-in final handler answers. The minimal revision registers no catch-all
  route.
\<close>

definition app_v1 :: "env \<Rightarrow> nat \<Rightarrow> faults \<Rightarrow> store \<Rightarrow> request \<Rightarrow> response option \<times> store" where
  "app_v1 ev now fs db rq =
     (if req_method rq = OPTIONS then (Some cors_preflight, db)
      else if app_get rq ''/health'' then (Some health_v1, db)
      else if app_post rq ''/api/auth/register''
        then (case register_v1 ev now fs db (body_of rq) of (r, db') \<Rightarrow> (Some r, db'))
      else if app_post rq ''/api/auth/login''
        then (case login_v1 ev now fs db (body_of rq) of (r, db') \<Rightarrow> (Some r, db'))
      else if app_get rq ''/api/courses''
        then (case courses_v1 fs db of (r, db') \<Rightarrow> (Some r, db'))
      else (None, db))"

section \<open>The middle revision: \<open>src/unnamed/part_000\<close>, first file\<close>

definition health_v2 :: "nat \<Rightarrow> response" where
  "health_v2 now =
     res_json (JObj [(''status'', JStr ''OK''),
                     (''message'', JStr ''Marine Mentors Backend is running!''),
                     (''timestamp'', JDate now)])"

text \<open>\<open>SELECT NOW()\<close>\<close>

definition test_db_v2 :: "nat \<Rightarrow> faults \<Rightarrow> store \<Rightarrow> response \<times> store" where
  "test_db_v2 now fs db =
     (case pool_query fs 0 now of
        Inl e \<Rightarrow>
          (res_status_json 500 (JObj [(''success'', JBool False),
                                      (''message'', JStr ''Database connection failed''),
                                      (''error'', JStr (message e))]), db)
      | Inr t \<Rightarrow>
          (res_json (JObj [(''success'', JBool True),
                           (''message'', JStr ''Database connection successful''),
                           (''timestamp'', JDate t)]), db))"

definition register_failed_v2 :: "exn \<Rightarrow> response" where
  "register_failed_v2 e =
     res_status_json 500 (JObj [(''error'', JStr ''Registration failed''),
                                (''details'', JStr (message e))])"

text \<open>Reading \<open>rows[0].id\<close> of an empty result throws a TypeError, caught like any other.\<close>

definition type_error_rows0 :: exn where
  "type_error_rows0 = Error ''Cannot read properties of undefined (reading 'id')'' []"

definition register_v2 :: "env \<Rightarrow> nat \<Rightarrow> faults \<Rightarrow> store \<Rightarrow> req_body \<Rightarrow> response \<times> store" where
  "register_v2 ev now fs db b =
     (case pool_query fs 0 (select_id_by_email db (email b)) of
        Inl e \<Rightarrow> (register_failed_v2 e, db)
      | Inr existingUser \<Rightarrow>
          if length existingUser > 0
          then (res_status_json 400
                  (JObj [(''error'', JStr ''User already exists with this email'')]), db)
          else
            (case bcrypt_hash ev (password b) 10 of
               Inl e \<Rightarrow> (register_failed_v2 e, db)
             | Inr passwordHash \<Rightarrow>
                 (case pool_query fs 1
                         (insert_user_defaults (table_defaults ev) now db
                            (fullName b) (email b) (phone b) (classLevel b) passwordHash) of
                    Inl e \<Rightarrow> (register_failed_v2 e, db)
                  | Inr (rows, db') \<Rightarrow>
                      (case rows of
                         [] \<Rightarrow> (register_failed_v2 type_error_rows0, db')
                       | r # _ \<Rightarrow>
                           let token = jwt_sign ev \<lparr>userId = id_col r, email_claim = None\<rparr>
                                         (JWT_SECRET ev) None now
                           in (res_json (JObj [(''success'', JBool True),
                                               (''token'', JStr token),
                                               (''user'', returning_id_name_email r),
                                               (''message'', JStr ''Registration successful!'')]),
                               db')))))"

definition login_failed_v2 :: "exn \<Rightarrow> response" where
  "login_failed_v2 e =
     res_status_json 500 (JObj [(''error'', JStr ''Login failed''),
                                (''details'', JStr (message e))])"

definition invalid_credentials_v2 :: response where
  "invalid_credentials_v2 =
     res_status_json 400 (JObj [(''error'', JStr ''Invalid email or password'')])"

definition login_v2 :: "env \<Rightarrow> nat \<Rightarrow> faults \<Rightarrow> store \<Rightarrow> req_body \<Rightarrow> response \<times> store" where
  "login_v2 ev now fs db b =
     (case pool_query fs 0 (select_user_by_email db (email b)) of
        Inl e \<Rightarrow> (login_failed_v2 e, db)
      | Inr rows \<Rightarrow>
          (case rows of
             [] \<Rightarrow> (invalid_credentials_v2, db)
           | u # _ \<Rightarrow>
               (case bcrypt_compare ev (password b) (password_hash u) of
                  Inl e \<Rightarrow> (login_failed_v2 e, db)
                | Inr validPassword \<Rightarrow>
                    if \<not> validPassword then (invalid_credentials_v2, db)
                    else
                      let token = jwt_sign ev \<lparr>userId = id_col u, email_claim = None\<rparr>
                                    (JWT_SECRET ev) None now
                      in (res_json (JObj [(''success'', JBool True),
                                          (''token'', JStr token),
                                          (''user'', JObj [(''id'', JNum (id_col u)),
                                                           (''fullName'', opt_str (full_name u)),
                                                           (''email'', opt_str (email_col u)),
                                                           (''classLevel'', opt_str (class_level u))]),
                                          (''message'', JStr ''Login successful!'')]),
                          db))))"

definition courses_v2 :: "faults \<Rightarrow> store \<Rightarrow> response \<times> store" where
  "courses_v2 fs db =
     (case pool_query fs 0 (select_active_courses db) of
        Inl e \<Rightarrow>
          (res_status_json 500 (JObj [(''error'', JStr ''Failed to fetch courses''),
                                      (''details'', JStr (message e))]), db)
      | Inr rows \<Rightarrow>
          (res_json (JObj [(''success'', JBool True),
                           (''courses'', JArr (map course_json rows))]), db))"

definition catch_all_v2 :: response where
  "catch_all_v2 =
     res_status_json 404
       (JObj [(''error'', JStr ''Route not found''),
              (''availableRoutes'',
                 JArr [JStr ''GET /health'',
                       JStr ''GET /api/test-db'',
                       JStr ''POST /api/auth/register'',
                       JStr ''POST /api/auth/login'',
                       JStr ''GET /api/courses''])])"

text \<open>
  \<open>app.get('*', ...)\<close> is registered last; \<open>*\<close> matches every path, and an \<open>app.get\<close> route
  serves GET and HEAD only.
\<close>

definition app_v2 :: "env \<Rightarrow> nat \<Rightarrow> faults \<Rightarrow> store \<Rightarrow> request \<Rightarrow> response option \<times> store" where
  "app_v2 ev now fs db rq =
     (if req_method rq = OPTIONS then (Some cors_preflight, db)
      else if app_get rq ''/health'' then (Some (health_v2 now), db)
      else if app_get rq ''/api/test-db''
        then (case test_db_v2 now fs db of (r, db') \<Rightarrow> (Some r, db'))
      else if app_post rq ''/api/auth/register''
        then (case register_v2 ev now fs db (body_of rq) of (r, db') \<Rightarrow> (Some r, db'))
      else if app_post rq ''/api/auth/login''
        then (case login_v2 ev now fs db (body_of rq) of (r, db') \<Rightarrow> (Some r, db'))
      else if app_get rq ''/api/courses''
        then (case courses_v2 fs db of (r, db') \<Rightarrow> (Some r, db'))
      else if req_method rq = GET \<or> req_method rq = HEAD then (Some catch_all_v2, db)
      else (None, db))"

section \<open>The richer revision: \<open>src/unnamed/part_000\<close>, second file\<close>

text \<open>\<open>process.env.NODE_ENV || 'development'\<close>\<close>

definition environment_tag :: "env \<Rightarrow> string" where
  "environment_tag ev = (if falsy (NODE_ENV ev) then ''development'' else the (NODE_ENV ev))"

definition health_v3 :: "env \<Rightarrow> nat \<Rightarrow> response" where
  "health_v3 ev now =
     res_json (JObj [(''status'', JStr ''OK''),
                     (''message'', JStr ''Marine Mentors Backend is running!''),
                     (''timestamp'', JDate now),
                     (''environment'', JStr (environment_tag ev))])"

text \<open>
  \<open>SELECT NOW() as current_time\<close>, then the lookup of the \<open>users\<close> table in
  \<open>information_schema.tables\<close>; the store of this model has that table.
\<close>

definition test_db_v3 :: "nat \<Rightarrow> faults \<Rightarrow> store \<Rightarrow> response \<times> store" where
  "test_db_v3 now fs db =
     (let failed = (\<lambda>e. res_status_json 500
                           (JObj [(''success'', JBool False),
                                  (''message'', JStr ''Database connection failed''),
                                  (''error'', JStr (message e))]))
      in case pool_query fs 0 now of
           Inl e \<Rightarrow> (failed e, db)
         | Inr t \<Rightarrow>
             (case pool_query fs 1 [''users''] of
                Inl e \<Rightarrow> (failed e, db)
              | Inr tableCheck \<Rightarrow>
                  (res_json (JObj [(''success'', JBool True),
                                   (''message'', JStr ''Database connection successful''),
                                   (''timestamp'', JDate t),
                                   (''usersTableExists'', JBool (length tableCheck > 0))]),
                   db)))"

text \<open>
  The catch block of the registration handler: \<open>details\<close> is the stack in development and
  \<open>undefined\<close> otherwise.
\<close>

definition register_failed_v3 :: "env \<Rightarrow> exn \<Rightarrow> response" where
  "register_failed_v3 ev e =
     res_status_json 500
       (JObj [(''success'', JBool False),
              (''error'', JStr (''Registration failed: '' @ message e)),
              (''details'', if NODE_ENV ev = Some ''development'' then JStr (stack e)
                            else JUndefined)])"

definition fields_required_v3 :: response where
  "fields_required_v3 =
     res_status_json 400
       (JObj [(''success'', JBool False),
              (''error'',
                 JStr ''All fields are required (fullName, email, phone, classLevel, password)'')])"

definition user_exists_v3 :: response where
  "user_exists_v3 =
     res_status_json 400
       (JObj [(''success'', JBool False),
              (''error'', JStr ''User already exists with this email'')])"

definition register_v3 :: "env \<Rightarrow> nat \<Rightarrow> faults \<Rightarrow> store \<Rightarrow> req_body \<Rightarrow> response \<times> store" where
  "register_v3 ev now fs db b =
     (if falsy (fullName b) \<or> falsy (email b) \<or> falsy (phone b) \<or> falsy (classLevel b)
         \<or> falsy (password b)
      then (fields_required_v3, db)
      else
        (case pool_query fs 0 (select_id_by_email db (email b)) of
           Inl e \<Rightarrow> (register_failed_v3 ev e, db)
         | Inr existingUser \<Rightarrow>
             if length existingUser > 0 then (user_exists_v3, db)
             else
               (case bcrypt_hash ev (password b) 10 of
                  Inl e \<Rightarrow> (register_failed_v3 ev e, db)
                | Inr passwordHash \<Rightarrow>
                    (case pool_query fs 1
                            (insert_user_explicit now db
                               (fullName b) (email b) (phone b) (classLevel b) passwordHash) of
                       Inl e \<Rightarrow> (register_failed_v3 ev e, db)
                     | Inr (rows, db') \<Rightarrow>
                         (case rows of
                            [] \<Rightarrow>
                              (register_failed_v3 ev
                                 (Error ''Failed to create user - no rows returned'' []), db')
                          | r # _ \<Rightarrow>
                              let token = jwt_sign ev
                                            \<lparr>userId = id_col r, email_claim = email_col r\<rparr>
                                            (JWT_SECRET ev) (Some expires_24h) now
                              in (res_status_json 201
                                    (JObj [(''success'', JBool True),
                                           (''message'', JStr ''Registration successful!''),
                                           (''token'', JStr token),
                                           (''user'',
                                              JObj [(''id'', JNum (id_col r)),
                                                    (''fullName'', opt_str (full_name r)),
                                                    (''email'', opt_str (email_col r)),
                                                    (''classLevel'', opt_str (class_level r)),
                                                    (''registrationDate'',
                                                       opt_date (registration_date r))])]),
                                  db'))))))"

definition login_failed_v3 :: "exn \<Rightarrow> response" where
  "login_failed_v3 e =
     res_status_json 500 (JObj [(''success'', JBool False),
                                (''error'', JStr (''Login failed: '' @ message e))])"

definition credentials_required_v3 :: response where
  "credentials_required_v3 =
     res_status_json 400 (JObj [(''success'', JBool False),
                                (''error'', JStr ''Email and password are required'')])"

definition invalid_credentials_v3 :: response where
  "invalid_credentials_v3 =
     res_status_json 401 (JObj [(''success'', JBool False),
                                (''error'', JStr ''Invalid email or password'')])"

definition login_v3 :: "env \<Rightarrow> nat \<Rightarrow> faults \<Rightarrow> store \<Rightarrow> req_body \<Rightarrow> response \<times> store" where
  "login_v3 ev now fs db b =
     (if falsy (email b) \<or> falsy (password b) then (credentials_required_v3, db)
      else
        (case pool_query fs 0 (select_active_user_by_email db (email b)) of
           Inl e \<Rightarrow> (login_failed_v3 e, db)
         | Inr rows \<Rightarrow>
             (case rows of
                [] \<Rightarrow> (invalid_credentials_v3, db)
              | u # _ \<Rightarrow>
                  (case bcrypt_compare ev (password b) (password_hash u) of
                     Inl e \<Rightarrow> (login_failed_v3 e, db)
                   | Inr validPassword \<Rightarrow>
                       if \<not> validPassword then (invalid_credentials_v3, db)
                       else
                         let token = jwt_sign ev
                                       \<lparr>userId = id_col u, email_claim = email_col u\<rparr>
                                       (JWT_SECRET ev) (Some expires_24h) now
                         in (res_json
                               (JObj [(''success'', JBool True),
                                      (''message'', JStr ''Login successful!''),
                                      (''token'', JStr token),
                                      (''user'',
                                         JObj [(''id'', JNum (id_col u)),
                                               (''fullName'', opt_str (full_name u)),
                                               (''email'', opt_str (email_col u)),
                                               (''classLevel'', opt_str (class_level u))])]),
                             db)))))"

definition courses_v3 :: "faults \<Rightarrow> store \<Rightarrow> response \<times> store" where
  "courses_v3 fs db =
     (case pool_query fs 0 (select_active_courses db) of
        Inl e \<Rightarrow>
          (res_status_json 500
             (JObj [(''success'', JBool False),
                    (''error'', JStr (''Failed to fetch courses: '' @ message e))]), db)
      | Inr rows \<Rightarrow>
          (res_json (JObj [(''success'', JBool True),
                           (''courses'', JArr (map course_json rows))]), db))"

text \<open>\<open>s.split(c)\<close> for a one-character separator: the pieces between the separators.\<close>

fun split_on :: "char \<Rightarrow> string \<Rightarrow> string list" where
  "split_on c [] = [[]]"
| "split_on c (x # xs) =
     (if x = c then [] # split_on c xs
      else (case split_on c xs of
              [] \<Rightarrow> [[x]]
            | w # ws \<Rightarrow> (x # w) # ws))"

text \<open>\<open>a[1]\<close>, \<open>undefined\<close> beyond the end.\<close>

fun index1 :: "'a list \<Rightarrow> 'a option" where
  "index1 (_ # y # _) = Some y"
| "index1 _ = None"

text \<open>\<open>authHeader.startsWith('Bearer ')\<close>\<close>

definition startsWith_Bearer :: "string \<Rightarrow> bool" where
  "startsWith_Bearer h = prefix ''Bearer '' h"

definition no_valid_token_v3 :: response where
  "no_valid_token_v3 =
     res_status_json 401 (JObj [(''success'', JBool False),
                                (''error'', JStr ''No valid token provided'')])"

definition invalid_token_v3 :: response where
  "invalid_token_v3 =
     res_status_json 401 (JObj [(''success'', JBool False),
                                (''error'', JStr ''Invalid or expired token'')])"

definition user_not_found_v3 :: response where
  "user_not_found_v3 =
     res_status_json 404 (JObj [(''success'', JBool False),
                                (''error'', JStr ''User not found'')])"

text \<open>
  A row of \<open>SELECT id, full_name, email, phone, class_level, registration_date FROM users\<close>.
\<close>

definition profile_row_json :: "user_row \<Rightarrow> json" where
  "profile_row_json u =
     JObj [(''id'', JNum (id_col u)),
           (''full_name'', opt_str (full_name u)),
           (''email'', opt_str (email_col u)),
           (''phone'', opt_str (phone_col u)),
           (''class_level'', opt_str (class_level u)),
           (''registration_date'', opt_date (registration_date u))]"

text \<open>
  The profile handler. One catch block surrounds the token verification and the store
  lookup alike and answers 401 for whatever was thrown. \<open>jwt.verify(undefined, ..)\<close>
  throws; after the \<open>startsWith\<close> test the split always has a second piece.
\<close>

definition profile_v3 :: "env \<Rightarrow> nat \<Rightarrow> faults \<Rightarrow> store \<Rightarrow> string option \<Rightarrow> response \<times> store" where
  "profile_v3 ev now fs db authHeader =
     (if falsy authHeader \<or> \<not> startsWith_Bearer (the authHeader) then (no_valid_token_v3, db)
      else
        (case index1 (split_on CHR '' '' (the authHeader)) of
           None \<Rightarrow> (invalid_token_v3, db)
         | Some token \<Rightarrow>
             (case jwt_verify ev token (JWT_SECRET ev) now of
                Inl e \<Rightarrow> (invalid_token_v3, db)
              | Inr decoded \<Rightarrow>
                  (case pool_query fs 0 (select_active_user_by_id db (decoded_userId decoded)) of
                     Inl e \<Rightarrow> (invalid_token_v3, db)
                   | Inr rows \<Rightarrow>
                       (case rows of
                          [] \<Rightarrow> (user_not_found_v3, db)
                        | u # _ \<Rightarrow>
                            (res_json (JObj [(''success'', JBool True),
                                             (''user'', profile_row_json u)]), db))))))"

text \<open>
  A row of \<open>SELECT id, full_name, email, phone, class_level, registration_date, is_active
  FROM users\<close>.
\<close>

definition admin_row_json :: "user_row \<Rightarrow> json" where
  "admin_row_json u =
     JObj [(''id'', JNum (id_col u)),
           (''full_name'', opt_str (full_name u)),
           (''email'', opt_str (email_col u)),
           (''phone'', opt_str (phone_col u)),
           (''class_level'', opt_str (class_level u)),
           (''registration_date'', opt_date (registration_date u)),
           (''is_active'', opt_bool (is_active u))]"

definition admin_users_v3 :: "faults \<Rightarrow> store \<Rightarrow> response \<times> store" where
  "admin_users_v3 fs db =
     (case pool_query fs 0 (select_all_users db) of
        Inl e \<Rightarrow>
          (res_status_json 500
             (JObj [(''success'', JBool False),
                    (''error'', JStr (''Failed to fetch users: '' @ message e))]), db)
      | Inr rows \<Rightarrow>
          (res_json (JObj [(''success'', JBool True),
                           (''users'', JArr (map admin_row_json rows)),
                           (''total'', JNum (length rows))]), db))"

definition catch_all_v3 :: "string \<Rightarrow> response" where
  "catch_all_v3 url =
     res_status_json 404
       (JObj [(''error'', JStr ''Route not found''),
              (''requestedPath'', JStr url),
              (''availableRoutes'',
                 JArr [JStr ''GET /health'',
                       JStr ''GET /api/test-db'',
                       JStr ''POST /api/auth/register'',
                       JStr ''POST /api/auth/login'',
                       JStr ''GET /api/courses'',
                       JStr ''GET /api/user/profile'',
                       JStr ''GET /api/admin/users''])])"

text \<open>
  The catch-all reports \<open>req.originalUrl\<close>, query string included. The error-handling
  middleware registered after it runs only when a handler passes an error on, which none
  does.
\<close>

definition app_v3 :: "env \<Rightarrow> nat \<Rightarrow> faults \<Rightarrow> store \<Rightarrow> request \<Rightarrow> response option \<times> store" where
  "app_v3 ev now fs db rq =
     (if req_method rq = OPTIONS then (Some cors_preflight, db)
      else if app_get rq ''/health'' then (Some (health_v3 ev now), db)
      else if app_get rq ''/api/test-db''
        then (case test_db_v3 now fs db of (r, db') \<Rightarrow> (Some r, db'))
      else if app_post rq ''/api/auth/register''
        then (case register_v3 ev now fs db (body_of rq) of (r, db') \<Rightarrow> (Some r, db'))
      else if app_post rq ''/api/auth/login''
        then (case login_v3 ev now fs db (body_of rq) of (r, db') \<Rightarrow> (Some r, db'))
      else if app_get rq ''/api/courses''
        then (case courses_v3 fs db of (r, db') \<Rightarrow> (Some r, db'))
      else if app_get rq ''/api/user/profile''
        then (case profile_v3 ev now fs db (authorization rq) of (r, db') \<Rightarrow> (Some r, db'))
      else if app_get rq ''/api/admin/users''
        then (case admin_users_v3 fs db of (r, db') \<Rightarrow> (Some r, db'))
      else if req_method rq = GET \<or> req_method rq = HEAD
        then (Some (catch_all_v3 (originalUrl rq)), db)
      else (None, db))"

section \<open>Contracts of the libraries\<close>

text \<open>
  What the token library promises and the profile lookup relies on: a token signed with a
  lifetime \<open>ttl\<close> at time \<open>t\<close> contains no blank and, verified with the same secret
  before \<open>t + ttl\<close>, decodes to the \<open>userId\<close> it was signed for.
\<close>

definition jwt_roundtrip :: "env \<Rightarrow> bool" where
  "jwt_roundtrip ev =
     (\<forall>p secret ttl t t'.
        t \<le> t' \<and> t' < t + ttl \<longrightarrow>
          CHR '' '' \<notin> set (jwt_sign ev p secret (Some ttl) t) \<and>
          jwt_verify ev (jwt_sign ev p secret (Some ttl) t) secret t'
            = Inr \<lparr>decoded_userId = Some (userId p)\<rparr>)"

text \<open>What the hash library promises: the digest of a string is never that string.\<close>

definition hash_hides :: "env \<Rightarrow> bool" where
  "hash_hides ev = (\<forall>p rounds h. bcrypt_hash ev (Some p) rounds = Inr h \<longrightarrow> h \<noteq> p)"

section \<open>A reference instance\<close>

text \<open>
  Stand-ins for the two libraries, simple enough to evaluate: the digest prefixes the
  password, the token spells the user identifier in unary after a fixed head and expires
  with its lifetime.
\<close>

definition demo_bcrypt_hash :: "string option \<Rightarrow> nat \<Rightarrow> exn + string" where
  "demo_bcrypt_hash pw rounds =
     (case pw of
        None \<Rightarrow> Inl (Error ''Illegal arguments: undefined, number'' [])
      | Some p \<Rightarrow> Inr (''$2a$10$'' @ p))"

definition demo_bcrypt_compare :: "string option \<Rightarrow> string \<Rightarrow> exn + bool" where
  "demo_bcrypt_compare pw h =
     (case pw of
        None \<Rightarrow> Inl (Error ''Illegal arguments: undefined, string'' [])
      | Some p \<Rightarrow> Inr (h = ''$2a$10$'' @ p))"

definition demo_jwt_sign :: "jwt_payload \<Rightarrow> string \<Rightarrow> nat option \<Rightarrow> nat \<Rightarrow> string" where
  "demo_jwt_sign p secret ttl t = ''jwt.'' @ replicate (userId p) CHR ''x''"

definition demo_jwt_verify :: "string \<Rightarrow> string \<Rightarrow> nat \<Rightarrow> exn + jwt_decoded" where
  "demo_jwt_verify tok secret t =
     (if take 4 tok = ''jwt.'' \<and> list_all (\<lambda>c. c = CHR ''x'') (drop 4 tok)
      then Inr \<lparr>decoded_userId = Some (length tok - 4)\<rparr>
      else Inl (Error ''jwt malformed'' []))"

definition demo_schema :: schema where
  "demo_schema =
     \<lparr>is_active_default = Some True, trial_used_default = Some False,
      registration_date_default = Some\<rparr>"

definition demo_env :: env where
  "demo_env =
     \<lparr>JWT_SECRET = ''marine_mentors_secret_2025'',
      NODE_ENV = Some ''production'',
      table_defaults = demo_schema,
      bcrypt_hash = demo_bcrypt_hash,
      bcrypt_compare = demo_bcrypt_compare,
      jwt_sign = demo_jwt_sign,
      jwt_verify = demo_jwt_verify\<rparr>"

definition demo_user :: user_row where
  "demo_user =
     \<lparr>id_col = 1, full_name = Some ''A'', email_col = Some ''a@x.com'', phone_col = Some ''1'',
      class_level = Some ''1'', password_hash = ''$2a$10$pw'', registration_date = Some 5,
      is_active = Some True, trial_used = Some False\<rparr>"

definition demo_courses :: "course_row list" where
  "demo_courses =
     [\<lparr>course_id = 3, course_is_active = Some True, course_fields = [(''title'', JStr ''Knots'')]\<rparr>,
      \<lparr>course_id = 2, course_is_active = Some False, course_fields = []\<rparr>,
      \<lparr>course_id = 1, course_is_active = Some True, course_fields = []\<rparr>]"

definition demo_db :: store where
  "demo_db = \<lparr>users = [demo_user], courses = demo_courses, users_id_seq = 2\<rparr>"

definition empty_db :: store where
  "empty_db = \<lparr>users = [], courses = [], users_id_seq = 1\<rparr>"

text \<open>The registration body of the concrete scenario of the specification.\<close>

definition demo_body :: req_body where
  "demo_body =
     \<lparr>fullName = Some ''A'', email = Some ''a@x.com'', phone = Some ''1'',
      classLevel = Some ''1'', password = Some ''pw''\<rparr>"

definition no_body :: req_body where
  "no_body =
     \<lparr>fullName = None, email = None, phone = None, classLevel = None, password = None\<rparr>"

definition store_down :: exn where
  "store_down = Error ''Connection terminated unexpectedly'' []"


text \<open>Requests for the health route as written, and in another spelling with a query.\<close>

definition get_url :: "string \<Rightarrow> request" where
  "get_url u = \<lparr>req_method = GET, originalUrl = u, authorization = None, body_of = no_body\<rparr>"

text \<open>
  A \<open>users\<close> table that declares no default for the three columns, so that a column an
  INSERT does not name is NULL; and the reference instance over it.
\<close>

definition bare_schema :: schema where
  "bare_schema =
     \<lparr>is_active_default = None, trial_used_default = None,
      registration_date_default = (\<lambda>t. None)\<rparr>"

definition bare_env :: env where
  "bare_env = demo_env\<lparr>table_defaults := bare_schema\<rparr>"

section \<open>Auxiliary facts\<close>

lemma pool_query_ok: "fs k = None \<Longrightarrow> pool_query fs k x = Inr x"
  by (simp add: pool_query_def)

lemma pool_query_fail: "fs k = Some e \<Longrightarrow> pool_query fs k x = Inl e"
  by (simp add: pool_query_def)

lemma select_id_nonempty:
  "u \<in> set (users db) \<Longrightarrow> email_col u = Some e \<Longrightarrow> length (select_id_by_email db (Some e)) > 0"
  by (auto simp: select_id_by_email_def filter_empty_conv)

lemma split_on_nonempty: "split_on c s \<noteq> []"
  by (induction s) (auto split: list.splits)

lemma split_on_no_sep: "c \<notin> set s \<Longrightarrow> split_on c s = [s]"
  by (induction s) auto

lemma split_on_Bearer:
  "split_on CHR '' '' (''Bearer '' @ t) = ''Bearer'' # split_on CHR '' '' t"
  by (simp split: list.splits add: split_on_nonempty)

text \<open>After the \<open>startsWith\<close> test the split has a second piece: the \<open>undefined\<close> token
  cannot occur.\<close>

lemma index1_Bearer: "startsWith_Bearer h \<Longrightarrow> index1 (split_on CHR '' '' h) \<noteq> None"
proof -
  assume "startsWith_Bearer h"
  then obtain t where h: "h = ''Bearer '' @ t"
    unfolding startsWith_Bearer_def prefix_def by blast
  obtain w ws where "split_on CHR '' '' t = w # ws"
    using split_on_nonempty [of "CHR '' ''" t] by (cases "split_on CHR '' '' t") auto
  then show ?thesis unfolding h split_on_Bearer by simp
qed

text \<open>What a successful run of a registration handler did.\<close>

lemma register_v1_success:
  assumes "register_v1 ev now fs db b = (resp, db')" and "status resp = 200"
  shows "\<exists>h. bcrypt_hash ev (password b) 10 = Inr h \<and>
          db' = snd (insert_user_defaults (table_defaults ev) now db
                       (fullName b) (email b) (phone b) (classLevel b) h) \<and>
          body resp = JObj [(''success'', JBool True),
                            (''token'', JStr (jwt_sign ev
                                \<lparr>userId = users_id_seq db, email_claim = None\<rparr>
                                (JWT_SECRET ev) None now)),
                            (''user'',
                               JObj [(''id'', JNum (users_id_seq db)),
                                     (''full_name'', opt_str (fullName b)),
                                     (''email'', opt_str (email b))])]"
  using assms
  by (auto simp: register_v1_def register_failed_v1_def res_status_json_def res_json_def
        insert_user_defaults_def Let_def pool_query_def returning_id_name_email_def
      split: sum.splits if_splits option.splits list.splits)

lemma register_v2_success:
  assumes "register_v2 ev now fs db b = (resp, db')" and "status resp = 200"
  shows "\<exists>h. bcrypt_hash ev (password b) 10 = Inr h \<and>
          db' = snd (insert_user_defaults (table_defaults ev) now db
                       (fullName b) (email b) (phone b) (classLevel b) h) \<and>
          body resp = JObj [(''success'', JBool True),
                            (''token'', JStr (jwt_sign ev
                                \<lparr>userId = users_id_seq db, email_claim = None\<rparr>
                                (JWT_SECRET ev) None now)),
                            (''user'',
                               JObj [(''id'', JNum (users_id_seq db)),
                                     (''full_name'', opt_str (fullName b)),
                                     (''email'', opt_str (email b))]),
                            (''message'', JStr ''Registration successful!'')]"
  using assms
  by (auto simp: register_v2_def register_failed_v2_def res_status_json_def res_json_def
        insert_user_defaults_def Let_def pool_query_def returning_id_name_email_def
      split: sum.splits if_splits option.splits list.splits)

lemma register_v3_success:
  assumes "register_v3 ev now fs db b = (resp, db')" and "status resp = 201"
  shows "\<exists>h. bcrypt_hash ev (password b) 10 = Inr h \<and>
          \<not> falsy (fullName b) \<and> \<not> falsy (email b) \<and> \<not> falsy (phone b) \<and>
          \<not> falsy (classLevel b) \<and> \<not> falsy (password b) \<and>
          db' = snd (insert_user_explicit now db
                       (fullName b) (email b) (phone b) (classLevel b) h) \<and>
          body resp = JObj [(''success'', JBool True),
                            (''message'', JStr ''Registration successful!''),
                            (''token'', JStr (jwt_sign ev
                                \<lparr>userId = users_id_seq db, email_claim = email b\<rparr>
                                (JWT_SECRET ev) (Some expires_24h) now)),
                            (''user'',
                               JObj [(''id'', JNum (users_id_seq db)),
                                     (''fullName'', opt_str (fullName b)),
                                     (''email'', opt_str (email b)),
                                     (''classLevel'', opt_str (classLevel b)),
                                     (''registrationDate'', JDate now)])]"
  using assms
  by (auto simp: register_v3_def register_failed_v3_def res_status_json_def res_json_def
        insert_user_explicit_def Let_def pool_query_def fields_required_v3_def user_exists_v3_def
        opt_date_def
      split: sum.splits if_splits option.splits list.splits)

lemma hash_hides_neq:
  assumes "hash_hides ev" and "bcrypt_hash ev pw rounds = Inr h"
  shows "Some h \<noteq> pw"
proof
  assume "Some h = pw"
  with assms(2) have "bcrypt_hash ev (Some h) rounds = Inr h" by simp
  with assms(1) show False unfolding hash_hides_def by blast
qed

lemma filter_last_nonempty: "P r \<Longrightarrow> filter P (xs @ [r]) \<noteq> []"
  by (simp add: filter_empty_conv)

text \<open>The reference instance meets the contracts; its registrations evaluated.\<close>

lemma demo_hash_hides: "hash_hides demo_env"
  by (auto simp: hash_hides_def demo_env_def demo_bcrypt_hash_def)

lemma demo_jwt_roundtrip: "jwt_roundtrip demo_env"
  by (simp add: jwt_roundtrip_def demo_env_def demo_jwt_sign_def demo_jwt_verify_def
        list_all_iff)

lemma demo_register_v1:
  "register_v1 demo_env 10 Map.empty empty_db demo_body =
     (\<lparr>status = 200,
       body = JObj [(''success'', JBool True), (''token'', JStr ''jwt.x''),
                    (''user'', JObj [(''id'', JNum 1), (''full_name'', JStr ''A''),
                                     (''email'', JStr ''a@x.com'')])]\<rparr>,
      \<lparr>users = [demo_user\<lparr>registration_date := Some 10\<rparr>], courses = [], users_id_seq = 2\<rparr>)"
  by (simp add: register_v1_def pool_query_def select_id_by_email_def empty_db_def demo_body_def
        demo_env_def demo_bcrypt_hash_def insert_user_defaults_def demo_schema_def
        demo_jwt_sign_def res_json_def returning_id_name_email_def opt_str_def demo_user_def Let_def)

lemma demo_register_v2:
  "register_v2 demo_env 10 Map.empty empty_db demo_body =
     (\<lparr>status = 200,
       body = JObj [(''success'', JBool True), (''token'', JStr ''jwt.x''),
                    (''user'', JObj [(''id'', JNum 1), (''full_name'', JStr ''A''),
                                     (''email'', JStr ''a@x.com'')]),
                    (''message'', JStr ''Registration successful!'')]\<rparr>,
      \<lparr>users = [demo_user\<lparr>registration_date := Some 10\<rparr>], courses = [], users_id_seq = 2\<rparr>)"
  by (simp add: register_v2_def pool_query_def select_id_by_email_def empty_db_def demo_body_def
        demo_env_def demo_bcrypt_hash_def insert_user_defaults_def demo_schema_def
        demo_jwt_sign_def res_json_def returning_id_name_email_def opt_str_def demo_user_def Let_def)

lemma demo_register_v3:
  "register_v3 demo_env 10 Map.empty empty_db demo_body =
     (\<lparr>status = 201,
       body = JObj [(''success'', JBool True),
                    (''message'', JStr ''Registration successful!''),
                    (''token'', JStr ''jwt.x''),
                    (''user'', JObj [(''id'', JNum 1), (''fullName'', JStr ''A''),
                                     (''email'', JStr ''a@x.com''), (''classLevel'', JStr ''1''),
                                     (''registrationDate'', JDate 10)])]\<rparr>,
      \<lparr>users = [demo_user\<lparr>registration_date := Some 10\<rparr>], courses = [], users_id_seq = 2\<rparr>)"
  by (simp add: register_v3_def pool_query_def select_id_by_email_def empty_db_def demo_body_def
        demo_env_def demo_bcrypt_hash_def insert_user_explicit_def falsy_def
        demo_jwt_sign_def res_status_json_def opt_str_def opt_date_def demo_user_def Let_def)

section \<open>Registration with an email already present\<close>

text \<open>
  C1 (as amended). When the existence query completes and the email of the request already
  has a row in \<open>users\<close>, the minimal and the middle revision answer 400 "User already
  exists"; the richer revision answers 400 "All fields are required" when one of the five
  fields is missing or empty and 400 "User already exists with this email" otherwise. In
  every case the store is returned as it was, whatever the fault plan holds for a second
  store call: no INSERT is issued.
\<close>

theorem register_existing_email:
  assumes "fs 0 = None" and "u \<in> set (users db)" and "email_col u = Some e"
    and "email b = Some e"
  shows "register_v1 ev now fs db b
           = (\<lparr>status = 400, body = JObj [(''error'', JStr ''User already exists'')]\<rparr>, db) \<and>
         register_v2 ev now fs db b
           = (\<lparr>status = 400,
               body = JObj [(''error'', JStr ''User already exists with this email'')]\<rparr>, db) \<and>
         register_v3 ev now fs db b
           = (if falsy (fullName b) \<or> falsy (email b) \<or> falsy (phone b) \<or> falsy (classLevel b)
                 \<or> falsy (password b)
              then \<lparr>status = 400,
                    body = JObj [(''success'', JBool False),
                                 (''error'', JStr ''All fields are required (fullName, email, phone, classLevel, password)'')]\<rparr>
              else \<lparr>status = 400,
                    body = JObj [(''success'', JBool False),
                                 (''error'', JStr ''User already exists with this email'')]\<rparr>, db)"
proof -
  have n: "length (select_id_by_email db (email b)) > 0"
    using select_id_nonempty [OF assms(2,3)] assms(4) by simp
  show ?thesis
    using assms(1) n
    by (simp add: register_v1_def register_v2_def register_v3_def pool_query_ok
          res_status_json_def fields_required_v3_def user_exists_v3_def)
qed

text \<open>The scenario of the specification, with a store that would reject a second call.\<close>

theorem register_existing_email_witness:
  "register_v1 demo_env 0 [1 \<mapsto> store_down] demo_db demo_body
     = (\<lparr>status = 400, body = JObj [(''error'', JStr ''User already exists'')]\<rparr>, demo_db) \<and>
   register_v3 demo_env 0 [1 \<mapsto> store_down] demo_db demo_body = (user_exists_v3, demo_db)"
proof -
  have h: "([1 \<mapsto> store_down] :: faults) 0 = None" "demo_user \<in> set (users demo_db)"
    "email_col demo_user = Some ''a@x.com''" "email demo_body = Some ''a@x.com''"
    by (simp_all add: demo_db_def demo_user_def demo_body_def)
  show ?thesis
    using register_existing_email [of "[1 \<mapsto> store_down]" demo_user demo_db "''a@x.com''"
        demo_body demo_env 0, OF h]
    by (simp add: demo_body_def falsy_def user_exists_v3_def res_status_json_def)
qed

text \<open>
  C1 as stated fails in the richer revision: the email of the request has a row, the phone
  is missing, and the answer is the validation error, not "user exists".
\<close>

theorem register_existing_email_counterexample:
  "demo_user \<in> set (users demo_db) \<and>
   email_col demo_user = email (demo_body\<lparr>phone := None\<rparr>) \<and>
   register_v3 demo_env 0 Map.empty demo_db (demo_body\<lparr>phone := None\<rparr>)
     = (fields_required_v3, demo_db) \<and>
   body fields_required_v3 \<noteq> body user_exists_v3"
  by (simp add: register_v3_def demo_db_def demo_user_def demo_body_def falsy_def
        fields_required_v3_def user_exists_v3_def res_status_json_def)

section \<open>Login failures\<close>

text \<open>
  C2 (as amended). A login whose email matches no user (no active user in the richer
  revision) and a login whose email matches a user and whose password \<open>bcrypt.compare\<close>
  resolves to false get the same response, status and body alike, in each revision:
  400 "Invalid credentials", 400 "Invalid email or password", 401 "Invalid email or
  password". The store lookups complete and, in the richer revision, both requests carry a
  non-empty email and password. A comparison that rejects instead of resolving is no part
  of this statement.
\<close>

theorem login_failures_indistinguishable:
  assumes "fs1 0 = None" and "fs2 0 = None"
  shows
   "(select_user_by_email db (email b1) = [] \<and>
     select_user_by_email db (email b2) = u # us \<and>
     bcrypt_compare ev (password b2) (password_hash u) = Inr False \<longrightarrow>
       login_v1 ev t1 fs1 db b1 = (invalid_credentials_v1, db) \<and>
       login_v1 ev t2 fs2 db b2 = (invalid_credentials_v1, db) \<and>
       login_v2 ev t1 fs1 db b1 = (invalid_credentials_v2, db) \<and>
       login_v2 ev t2 fs2 db b2 = (invalid_credentials_v2, db)) \<and>
    (\<not> falsy (email b1) \<and> \<not> falsy (password b1) \<and>
     \<not> falsy (email b2) \<and> \<not> falsy (password b2) \<and>
     select_active_user_by_email db (email b1) = [] \<and>
     select_active_user_by_email db (email b2) = u # us \<and>
     bcrypt_compare ev (password b2) (password_hash u) = Inr False \<longrightarrow>
       login_v3 ev t1 fs1 db b1 = (invalid_credentials_v3, db) \<and>
       login_v3 ev t2 fs2 db b2 = (invalid_credentials_v3, db))"
  using assms
  by (simp add: login_v1_def login_v2_def login_v3_def pool_query_ok)

theorem login_failures_indistinguishable_witness:
  "login_v1 demo_env 0 Map.empty demo_db (demo_body\<lparr>email := Some ''b@x.com''\<rparr>)
     = login_v1 demo_env 7 Map.empty demo_db (demo_body\<lparr>password := Some ''wrong''\<rparr>) \<and>
   login_v2 demo_env 0 Map.empty demo_db (demo_body\<lparr>email := Some ''b@x.com''\<rparr>)
     = login_v2 demo_env 7 Map.empty demo_db (demo_body\<lparr>password := Some ''wrong''\<rparr>) \<and>
   login_v3 demo_env 0 Map.empty demo_db (demo_body\<lparr>email := Some ''b@x.com''\<rparr>)
     = login_v3 demo_env 7 Map.empty demo_db (demo_body\<lparr>password := Some ''wrong''\<rparr>)"
  using login_failures_indistinguishable [of Map.empty Map.empty demo_db
      "demo_body\<lparr>email := Some ''b@x.com''\<rparr>" "demo_body\<lparr>password := Some ''wrong''\<rparr>"
      demo_user "[]" demo_env 0 7]
  by (simp add: select_user_by_email_def select_active_user_by_email_def demo_db_def
        demo_user_def demo_body_def demo_env_def demo_bcrypt_compare_def falsy_def)


text \<open>
  C2 as stated fails in the richer revision, which validates first: a login with an
  unknown email and no password gets 400 "Email and password are required", a login with
  a known email and a wrong password gets 401.
\<close>

theorem login_failures_indistinguishable_counterexample:
  "select_active_user_by_email demo_db (email (demo_body\<lparr>email := Some ''b@x.com'', password := None\<rparr>)) = [] \<and>
   login_v3 demo_env 0 Map.empty demo_db (demo_body\<lparr>email := Some ''b@x.com'', password := None\<rparr>)
     = (credentials_required_v3, demo_db) \<and>
   select_active_user_by_email demo_db (email (demo_body\<lparr>password := Some ''wrong''\<rparr>)) = [demo_user] \<and>
   bcrypt_compare demo_env (Some ''wrong'') (password_hash demo_user) = Inr False \<and>
   login_v3 demo_env 0 Map.empty demo_db (demo_body\<lparr>password := Some ''wrong''\<rparr>)
     = (invalid_credentials_v3, demo_db) \<and>
   status credentials_required_v3 = 400 \<and> status invalid_credentials_v3 = 401"
  by (simp add: login_v3_def pool_query_def select_active_user_by_email_def demo_db_def
        demo_user_def demo_body_def demo_env_def demo_bcrypt_compare_def falsy_def
        credentials_required_v3_def invalid_credentials_v3_def res_status_json_def)

text \<open>
  The first two revisions do not validate: with a known email and a password that makes
  \<open>bcrypt.compare\<close> reject (a missing one, for instance) the catch block answers 500, where
  an unknown email gets 400 whatever the password.
\<close>

lemma login_known_email_without_password:
  assumes "fs 0 = None" and "select_user_by_email db (email b) = u # us"
    and "bcrypt_compare ev (password b) (password_hash u) = Inl e"
  shows "login_v1 ev now fs db b = (login_failed_v1, db)"
    and "login_v2 ev now fs db b = (login_failed_v2 e, db)"
    and "status login_failed_v1 = 500" and "status (login_failed_v2 e) = 500"
  using assms
  by (simp_all add: login_v1_def login_v2_def pool_query_ok login_failed_v1_def
        login_failed_v2_def res_status_json_def)

lemma login_v1_password_missing_example:
  "status (fst (login_v1 demo_env 0 Map.empty demo_db (demo_body\<lparr>password := None\<rparr>))) = 500"
  "status (fst (login_v1 demo_env 0 Map.empty demo_db
                  (demo_body\<lparr>email := Some ''b@x.com'', password := None\<rparr>))) = 400"
  by (simp_all add: login_v1_def pool_query_def select_user_by_email_def demo_db_def
        demo_user_def demo_body_def demo_env_def demo_bcrypt_compare_def
        login_failed_v1_def invalid_credentials_v1_def res_status_json_def)

section \<open>The profile endpoint\<close>

text \<open>
  C5. The profile handler of the richer revision answers
  \<^item> 401 "No valid token provided" when the Authorization header is absent or does not
    start with \<open>Bearer \<close>, for every store and every fault plan (the store is not consulted);
  \<^item> 401 "Invalid or expired token" when the verification of the token throws;
  \<^item> 404 when the verification succeeds, the lookup completes and no active user has the
    identifier of the token.
  The store is returned as it was in each case.
\<close>

theorem profile_v3_error_cases:
  "((case h of None \<Rightarrow> True | Some s \<Rightarrow> \<not> startsWith_Bearer s) \<longrightarrow>
      profile_v3 ev now fs db h = (no_valid_token_v3, db)) \<and>
   (h = Some s \<and> startsWith_Bearer s \<and> index1 (split_on CHR '' '' s) = Some tok \<and>
    jwt_verify ev tok (JWT_SECRET ev) now = Inl e \<longrightarrow>
      profile_v3 ev now fs db h = (invalid_token_v3, db)) \<and>
   (h = Some s \<and> startsWith_Bearer s \<and> index1 (split_on CHR '' '' s) = Some tok \<and>
    jwt_verify ev tok (JWT_SECRET ev) now = Inr d \<and> fs 0 = None \<and>
    (\<forall>u \<in> set (users db). \<not> (decoded_userId d = Some (id_col u) \<and> is_active u = Some True)) \<longrightarrow>
      profile_v3 ev now fs db h = (user_not_found_v3, db)) \<and>
   status no_valid_token_v3 = 401 \<and>
   body no_valid_token_v3 =
     JObj [(''success'', JBool False), (''error'', JStr ''No valid token provided'')] \<and>
   status invalid_token_v3 = 401 \<and>
   body invalid_token_v3 =
     JObj [(''success'', JBool False), (''error'', JStr ''Invalid or expired token'')] \<and>
   status user_not_found_v3 = 404"
proof -
  have a: "(case h of None \<Rightarrow> True | Some s \<Rightarrow> \<not> startsWith_Bearer s) \<Longrightarrow>
      profile_v3 ev now fs db h = (no_valid_token_v3, db)"
    by (auto simp: profile_v3_def falsy_def split: option.splits)
  have ne: "startsWith_Bearer s \<Longrightarrow> s \<noteq> []"
    by (auto simp: startsWith_Bearer_def)
  have b: "h = Some s \<Longrightarrow> startsWith_Bearer s \<Longrightarrow> index1 (split_on CHR '' '' s) = Some tok \<Longrightarrow>
    jwt_verify ev tok (JWT_SECRET ev) now = Inl e \<Longrightarrow>
      profile_v3 ev now fs db h = (invalid_token_v3, db)"
    using ne by (simp add: profile_v3_def falsy_def)
  have c: "profile_v3 ev now fs db h = (user_not_found_v3, db)"
    if hs: "h = Some s" "startsWith_Bearer s" "index1 (split_on CHR '' '' s) = Some tok"
      "jwt_verify ev tok (JWT_SECRET ev) now = Inr d" "fs 0 = None"
      and none: "\<forall>u \<in> set (users db).
                   \<not> (decoded_userId d = Some (id_col u) \<and> is_active u = Some True)"
  proof -
    from none have "select_active_user_by_id db (decoded_userId d) = []"
      by (auto simp: select_active_user_by_id_def filter_empty_conv)
    with hs ne show ?thesis
      by (simp add: profile_v3_def falsy_def pool_query_ok)
  qed
  show ?thesis using a b c
    by (simp add: no_valid_token_v3_def invalid_token_v3_def user_not_found_v3_def
          res_status_json_def)
qed

text \<open>No header and a Basic header against a store that is down, a forged token, and a
  well-formed token for an identifier no user has.\<close>

theorem profile_v3_error_cases_witness:
  "profile_v3 demo_env 0 [0 \<mapsto> store_down] demo_db None = (no_valid_token_v3, demo_db) \<and>
   profile_v3 demo_env 0 [0 \<mapsto> store_down] demo_db (Some ''Basic jwt.x'')
     = (no_valid_token_v3, demo_db) \<and>
   profile_v3 demo_env 0 Map.empty demo_db (Some ''Bearer forged'') = (invalid_token_v3, demo_db) \<and>
   profile_v3 demo_env 0 Map.empty demo_db (Some ''Bearer jwt.xx'') = (user_not_found_v3, demo_db)"
proof -
  have a: "profile_v3 demo_env 0 [0 \<mapsto> store_down] demo_db None = (no_valid_token_v3, demo_db)"
    using profile_v3_error_cases [of None demo_env 0 "[0 \<mapsto> store_down]" demo_db] by simp
  have b: "profile_v3 demo_env 0 [0 \<mapsto> store_down] demo_db (Some ''Basic jwt.x'')
             = (no_valid_token_v3, demo_db)"
    using profile_v3_error_cases [of "Some ''Basic jwt.x''" demo_env 0 "[0 \<mapsto> store_down]" demo_db]
    by (simp add: startsWith_Bearer_def)
  have c: "profile_v3 demo_env 0 Map.empty demo_db (Some ''Bearer forged'')
             = (invalid_token_v3, demo_db)"
    using profile_v3_error_cases [of "Some ''Bearer forged''" demo_env 0 Map.empty demo_db
        "''Bearer forged''" "''forged''" "Error ''jwt malformed'' []"]
    by (simp add: startsWith_Bearer_def demo_env_def demo_jwt_verify_def)
  have d: "profile_v3 demo_env 0 Map.empty demo_db (Some ''Bearer jwt.xx'')
             = (user_not_found_v3, demo_db)"
    using profile_v3_error_cases [of "Some ''Bearer jwt.xx''" demo_env 0 Map.empty demo_db
        "''Bearer jwt.xx''" "''jwt.xx''" _ "\<lparr>decoded_userId = Some 2\<rparr>"]
    by (simp add: startsWith_Bearer_def demo_env_def demo_jwt_verify_def demo_db_def demo_user_def)
  from a b c d show ?thesis by simp
qed

section \<open>The course listing\<close>

text \<open>
  C7. When the query completes, the course listing of every revision answers 200 with
  exactly the rows of \<open>courses\<close> whose active flag is true (each as often as the table
  holds it: nothing is dropped, added or paged), in ascending order of their identifier;
  the store is returned as it was, and the same request on the resulting store gets the
  same answer.
\<close>

theorem courses_listing:
  assumes "fs 0 = None"
  shows "\<exists>rows.
     mset rows = mset (filter (\<lambda>c. course_is_active c = Some True) (courses db)) \<and>
     sorted (map course_id rows) \<and>
     courses_v1 fs db =
       (\<lparr>status = 200, body = JObj [(''success'', JBool True),
                                    (''courses'', JArr (map course_json rows))]\<rparr>, db) \<and>
     courses_v2 fs db = courses_v1 fs db \<and>
     courses_v3 fs db = courses_v1 fs db \<and>
     courses_v1 fs (snd (courses_v1 fs db)) = courses_v1 fs db \<and>
     courses_v2 fs (snd (courses_v2 fs db)) = courses_v2 fs db \<and>
     courses_v3 fs (snd (courses_v3 fs db)) = courses_v3 fs db"
proof (intro exI conjI)
  show "mset (select_active_courses db)
          = mset (filter (\<lambda>c. course_is_active c = Some True) (courses db))"
    by (simp add: select_active_courses_def)
  show "sorted (map course_id (select_active_courses db))"
    by (simp add: select_active_courses_def)
  show v1: "courses_v1 fs db =
       (\<lparr>status = 200, body = JObj [(''success'', JBool True),
           (''courses'', JArr (map course_json (select_active_courses db)))]\<rparr>, db)"
    using assms by (simp add: courses_v1_def pool_query_ok res_json_def)
  show v2: "courses_v2 fs db = courses_v1 fs db"
    using assms by (simp add: courses_v1_def courses_v2_def pool_query_ok)
  show v3: "courses_v3 fs db = courses_v1 fs db"
    using assms by (simp add: courses_v1_def courses_v3_def pool_query_ok)
  show "courses_v1 fs (snd (courses_v1 fs db)) = courses_v1 fs db" by (simp add: v1)
  show "courses_v2 fs (snd (courses_v2 fs db)) = courses_v2 fs db" by (simp add: v1 v2)
  show "courses_v3 fs (snd (courses_v3 fs db)) = courses_v3 fs db" by (simp add: v1 v3)
qed

text \<open>Three courses stored in the order 3, 2, 1, the second inactive: 1 and 3 are listed.\<close>

theorem courses_listing_witness:
  "(Map.empty :: faults) 0 = None \<and>
   fst (courses_v3 Map.empty demo_db) =
     \<lparr>status = 200,
      body = JObj [(''success'', JBool True),
                   (''courses'', JArr [JObj [(''id'', JNum 1), (''is_active'', JBool True)],
                                       JObj [(''id'', JNum 3), (''is_active'', JBool True),
                                             (''title'', JStr ''Knots'')]])]\<rparr>"
proof -
  have h: "(Map.empty :: faults) 0 = None" by simp
  from courses_listing [OF h, of demo_db]
  have "courses_v3 Map.empty demo_db = courses_v1 Map.empty demo_db" by blast
  then show ?thesis
    by (simp add: courses_v1_def pool_query_def select_active_courses_def demo_db_def
          demo_courses_def res_json_def course_json_def opt_bool_def)
qed

section \<open>Login validation in the richer revision\<close>

text \<open>
  C10. In the richer revision a login request whose email or password is missing (or
  empty) gets 400 "Email and password are required", a response different from the generic
  invalid-credentials error. This holds for every store, every fault plan and every
  behaviour of the hash library: neither a store lookup nor a hash comparison takes part.
\<close>

theorem login_v3_validates_first:
  assumes "falsy (email b) \<or> falsy (password b)"
  shows "login_v3 ev now fs db b = (credentials_required_v3, db) \<and>
         status credentials_required_v3 = 400 \<and>
         body credentials_required_v3 =
           JObj [(''success'', JBool False), (''error'', JStr ''Email and password are required'')] \<and>
         credentials_required_v3 \<noteq> invalid_credentials_v3"
  using assms
  by (simp add: login_v3_def credentials_required_v3_def invalid_credentials_v3_def
        res_status_json_def)

theorem login_v3_validates_first_witness:
  "(falsy (email (demo_body\<lparr>password := None\<rparr>)) \<or>
    falsy (password (demo_body\<lparr>password := None\<rparr>))) \<and>
   login_v3 demo_env 0 [0 \<mapsto> store_down] demo_db (demo_body\<lparr>password := None\<rparr>)
     = (credentials_required_v3, demo_db)"
proof -
  have h: "falsy (email (demo_body\<lparr>password := None\<rparr>)) \<or>
           falsy (password (demo_body\<lparr>password := None\<rparr>))"
    by (simp add: falsy_def demo_body_def)
  show ?thesis
    using h login_v3_validates_first [OF h, of demo_env 0 "[0 \<mapsto> store_down]" demo_db]
    by simp
qed

section \<open>The user object of a successful registration\<close>

text \<open>
  C4. After a successful registration (200 in the first two revisions, 201 in the richer
  one) the body has the members \<open>success\<close>, \<open>token\<close>, \<open>user\<close> (and \<open>message\<close>), and
  \<open>user\<close> is an object of the public columns only: \<open>id\<close>, \<open>full_name\<close>, \<open>email\<close>, and in
  the richer revision \<open>id\<close>, \<open>fullName\<close>, \<open>email\<close>, \<open>classLevel\<close>, \<open>registrationDate\<close>. Its
  values are the new identifier, the clock and the name, email and class level of the
  request: neither the password nor its hash occurs in it, as a key or as a value.
\<close>

theorem registration_returns_public_fields:
  "(register_v1 ev now fs db b = (resp, db') \<and> status resp = 200 \<longrightarrow>
      obj_keys (body resp) = [''success'', ''token'', ''user''] \<and>
      obj_get ''user'' (body resp)
        = Some (JObj [(''id'', JNum (users_id_seq db)),
                      (''full_name'', opt_str (fullName b)),
                      (''email'', opt_str (email b))])) \<and>
   (register_v2 ev now fs db b = (resp, db') \<and> status resp = 200 \<longrightarrow>
      obj_keys (body resp) = [''success'', ''token'', ''user'', ''message''] \<and>
      obj_get ''user'' (body resp)
        = Some (JObj [(''id'', JNum (users_id_seq db)),
                      (''full_name'', opt_str (fullName b)),
                      (''email'', opt_str (email b))])) \<and>
   (register_v3 ev now fs db b = (resp, db') \<and> status resp = 201 \<longrightarrow>
      obj_keys (body resp) = [''success'', ''message'', ''token'', ''user''] \<and>
      obj_get ''user'' (body resp)
        = Some (JObj [(''id'', JNum (users_id_seq db)),
                      (''fullName'', opt_str (fullName b)),
                      (''email'', opt_str (email b)),
                      (''classLevel'', opt_str (classLevel b)),
                      (''registrationDate'', JDate now)]))"
proof (intro conjI impI)
  assume a: "register_v1 ev now fs db b = (resp, db') \<and> status resp = 200"
  then obtain h where "body resp = JObj [(''success'', JBool True),
                            (''token'', JStr (jwt_sign ev
                                \<lparr>userId = users_id_seq db, email_claim = None\<rparr>
                                (JWT_SECRET ev) None now)),
                            (''user'',
                               JObj [(''id'', JNum (users_id_seq db)),
                                     (''full_name'', opt_str (fullName b)),
                                     (''email'', opt_str (email b))])]"
    using register_v1_success [of ev now fs db b resp db'] by blast
  then show "obj_keys (body resp) = [''success'', ''token'', ''user'']"
    and "obj_get ''user'' (body resp)
        = Some (JObj [(''id'', JNum (users_id_seq db)),
                      (''full_name'', opt_str (fullName b)),
                      (''email'', opt_str (email b))])"
    by simp_all
next
  assume a: "register_v2 ev now fs db b = (resp, db') \<and> status resp = 200"
  then obtain h where "body resp = JObj [(''success'', JBool True),
                            (''token'', JStr (jwt_sign ev
                                \<lparr>userId = users_id_seq db, email_claim = None\<rparr>
                                (JWT_SECRET ev) None now)),
                            (''user'',
                               JObj [(''id'', JNum (users_id_seq db)),
                                     (''full_name'', opt_str (fullName b)),
                                     (''email'', opt_str (email b))]),
                            (''message'', JStr ''Registration successful!'')]"
    using register_v2_success [of ev now fs db b resp db'] by blast
  then show "obj_keys (body resp) = [''success'', ''token'', ''user'', ''message'']"
    and "obj_get ''user'' (body resp)
        = Some (JObj [(''id'', JNum (users_id_seq db)),
                      (''full_name'', opt_str (fullName b)),
                      (''email'', opt_str (email b))])"
    by simp_all
next
  assume a: "register_v3 ev now fs db b = (resp, db') \<and> status resp = 201"
  then obtain h where "body resp = JObj [(''success'', JBool True),
                            (''message'', JStr ''Registration successful!''),
                            (''token'', JStr (jwt_sign ev
                                \<lparr>userId = users_id_seq db, email_claim = email b\<rparr>
                                (JWT_SECRET ev) (Some expires_24h) now)),
                            (''user'',
                               JObj [(''id'', JNum (users_id_seq db)),
                                     (''fullName'', opt_str (fullName b)),
                                     (''email'', opt_str (email b)),
                                     (''classLevel'', opt_str (classLevel b)),
                                     (''registrationDate'', JDate now)])]"
    using register_v3_success [of ev now fs db b resp db'] by blast
  then show "obj_keys (body resp) = [''success'', ''message'', ''token'', ''user'']"
    and "obj_get ''user'' (body resp)
        = Some (JObj [(''id'', JNum (users_id_seq db)),
                      (''fullName'', opt_str (fullName b)),
                      (''email'', opt_str (email b)),
                      (''classLevel'', opt_str (classLevel b)),
                      (''registrationDate'', JDate now)])"
    by simp_all
qed

theorem registration_returns_public_fields_witness:
  "obj_get ''user'' (body (fst (register_v1 demo_env 10 Map.empty empty_db demo_body)))
     = Some (JObj [(''id'', JNum 1), (''full_name'', JStr ''A''), (''email'', JStr ''a@x.com'')]) \<and>
   obj_get ''user'' (body (fst (register_v2 demo_env 10 Map.empty empty_db demo_body)))
     = Some (JObj [(''id'', JNum 1), (''full_name'', JStr ''A''), (''email'', JStr ''a@x.com'')]) \<and>
   obj_get ''user'' (body (fst (register_v3 demo_env 10 Map.empty empty_db demo_body)))
     = Some (JObj [(''id'', JNum 1), (''fullName'', JStr ''A''), (''email'', JStr ''a@x.com''),
                   (''classLevel'', JStr ''1''), (''registrationDate'', JDate 10)])"
proof -
  note T = registration_returns_public_fields [of demo_env 10 Map.empty empty_db demo_body]
  have v1: "obj_get ''user'' (body (fst (register_v1 demo_env 10 Map.empty empty_db demo_body)))
     = Some (JObj [(''id'', JNum (users_id_seq empty_db)),
                   (''full_name'', opt_str (fullName demo_body)),
                   (''email'', opt_str (email demo_body))])"
    using T [of "fst (register_v1 demo_env 10 Map.empty empty_db demo_body)"
                "snd (register_v1 demo_env 10 Map.empty empty_db demo_body)"]
    by (simp add: demo_register_v1)
  have v2: "obj_get ''user'' (body (fst (register_v2 demo_env 10 Map.empty empty_db demo_body)))
     = Some (JObj [(''id'', JNum (users_id_seq empty_db)),
                   (''full_name'', opt_str (fullName demo_body)),
                   (''email'', opt_str (email demo_body))])"
    using T [of "fst (register_v2 demo_env 10 Map.empty empty_db demo_body)"
                "snd (register_v2 demo_env 10 Map.empty empty_db demo_body)"]
    by (simp add: demo_register_v2)
  have v3: "obj_get ''user'' (body (fst (register_v3 demo_env 10 Map.empty empty_db demo_body)))
     = Some (JObj [(''id'', JNum (users_id_seq empty_db)),
                   (''fullName'', opt_str (fullName demo_body)),
                   (''email'', opt_str (email demo_body)),
                   (''classLevel'', opt_str (classLevel demo_body)),
                   (''registrationDate'', JDate 10)])"
    using T [of "fst (register_v3 demo_env 10 Map.empty empty_db demo_body)"
                "snd (register_v3 demo_env 10 Map.empty empty_db demo_body)"]
    by (simp add: demo_register_v3)
  from v1 v2 v3 show ?thesis
    by (simp add: empty_db_def demo_body_def opt_str_def)
qed

section \<open>The row a registration inserts\<close>

text \<open>A registration against a table without column defaults.\<close>

lemma bare_register:
  "register_v1 bare_env 10 Map.empty empty_db demo_body =
     (\<lparr>status = 200,
       body = JObj [(''success'', JBool True), (''token'', JStr ''jwt.x''),
                    (''user'', JObj [(''id'', JNum 1), (''full_name'', JStr ''A''),
                                     (''email'', JStr ''a@x.com'')])]\<rparr>,
      \<lparr>users = [demo_user\<lparr>registration_date := None, is_active := None, trial_used := None\<rparr>],
       courses = [], users_id_seq = 2\<rparr>)"
  "register_v2 bare_env 10 Map.empty empty_db demo_body =
     (\<lparr>status = 200,
       body = JObj [(''success'', JBool True), (''token'', JStr ''jwt.x''),
                    (''user'', JObj [(''id'', JNum 1), (''full_name'', JStr ''A''),
                                     (''email'', JStr ''a@x.com'')]),
                    (''message'', JStr ''Registration successful!'')]\<rparr>,
      \<lparr>users = [demo_user\<lparr>registration_date := None, is_active := None, trial_used := None\<rparr>],
       courses = [], users_id_seq = 2\<rparr>)"
  by (simp_all add: register_v1_def register_v2_def pool_query_def select_id_by_email_def
        empty_db_def demo_body_def bare_env_def bare_schema_def
        demo_env_def demo_bcrypt_hash_def insert_user_defaults_def
        demo_jwt_sign_def res_json_def returning_id_name_email_def opt_str_def demo_user_def Let_def)

text \<open>
  C8 (as amended). A successful registration appends one row to \<open>users\<close>, and its password
  column holds what \<open>bcrypt.hash(password, 10)\<close> returned, which is not the plaintext for a
  hash library that never returns its input. In the richer revision the INSERT itself sets
  the active flag to true, the trial-used flag to false and the registration date to the
  clock of the store. In the first two revisions the INSERT names the five supplied columns
  only, and the three others hold the defaults of the table, whatever these are.
\<close>

theorem registration_inserts_row:
  "(register_v1 ev now fs db b = (resp, db') \<and> status resp = 200 \<longrightarrow>
      (\<exists>r h. users db' = users db @ [r] \<and>
             is_active r = is_active_default (table_defaults ev) \<and>
             trial_used r = trial_used_default (table_defaults ev) \<and>
             registration_date r = registration_date_default (table_defaults ev) now \<and>
             bcrypt_hash ev (password b) 10 = Inr h \<and> password_hash r = h \<and>
             (hash_hides ev \<longrightarrow> Some (password_hash r) \<noteq> password b))) \<and>
   (register_v2 ev now fs db b = (resp, db') \<and> status resp = 200 \<longrightarrow>
      (\<exists>r h. users db' = users db @ [r] \<and>
             is_active r = is_active_default (table_defaults ev) \<and>
             trial_used r = trial_used_default (table_defaults ev) \<and>
             registration_date r = registration_date_default (table_defaults ev) now \<and>
             bcrypt_hash ev (password b) 10 = Inr h \<and> password_hash r = h \<and>
             (hash_hides ev \<longrightarrow> Some (password_hash r) \<noteq> password b))) \<and>
   (register_v3 ev now fs db b = (resp, db') \<and> status resp = 201 \<longrightarrow>
      (\<exists>r h. users db' = users db @ [r] \<and>
             is_active r = Some True \<and> trial_used r = Some False \<and>
             registration_date r = Some now \<and>
             bcrypt_hash ev (password b) 10 = Inr h \<and> password_hash r = h \<and>
             (hash_hides ev \<longrightarrow> Some (password_hash r) \<noteq> password b)))"
proof (intro conjI impI)
  assume a: "register_v1 ev now fs db b = (resp, db') \<and> status resp = 200"
  then obtain h where h: "bcrypt_hash ev (password b) 10 = Inr h"
    and db': "db' = snd (insert_user_defaults (table_defaults ev) now db
                       (fullName b) (email b) (phone b) (classLevel b) h)"
    using register_v1_success [of ev now fs db b resp db'] by blast
  have hide: "hash_hides ev \<Longrightarrow> Some h \<noteq> password b"
    using hash_hides_neq [OF _ h] by blast
  show "\<exists>r h. users db' = users db @ [r] \<and>
             is_active r = is_active_default (table_defaults ev) \<and>
             trial_used r = trial_used_default (table_defaults ev) \<and>
             registration_date r = registration_date_default (table_defaults ev) now \<and>
             bcrypt_hash ev (password b) 10 = Inr h \<and> password_hash r = h \<and>
             (hash_hides ev \<longrightarrow> Some (password_hash r) \<noteq> password b)"
    using h hide unfolding db'
    by (simp add: insert_user_defaults_def Let_def)
next
  assume a: "register_v2 ev now fs db b = (resp, db') \<and> status resp = 200"
  then obtain h where h: "bcrypt_hash ev (password b) 10 = Inr h"
    and db': "db' = snd (insert_user_defaults (table_defaults ev) now db
                       (fullName b) (email b) (phone b) (classLevel b) h)"
    using register_v2_success [of ev now fs db b resp db'] by blast
  have hide: "hash_hides ev \<Longrightarrow> Some h \<noteq> password b"
    using hash_hides_neq [OF _ h] by blast
  show "\<exists>r h. users db' = users db @ [r] \<and>
             is_active r = is_active_default (table_defaults ev) \<and>
             trial_used r = trial_used_default (table_defaults ev) \<and>
             registration_date r = registration_date_default (table_defaults ev) now \<and>
             bcrypt_hash ev (password b) 10 = Inr h \<and> password_hash r = h \<and>
             (hash_hides ev \<longrightarrow> Some (password_hash r) \<noteq> password b)"
    using h hide unfolding db'
    by (simp add: insert_user_defaults_def Let_def)
next
  assume a: "register_v3 ev now fs db b = (resp, db') \<and> status resp = 201"
  then obtain h where h: "bcrypt_hash ev (password b) 10 = Inr h"
    and db': "db' = snd (insert_user_explicit now db
                       (fullName b) (email b) (phone b) (classLevel b) h)"
    using register_v3_success [of ev now fs db b resp db'] by blast
  have hide: "hash_hides ev \<Longrightarrow> Some h \<noteq> password b"
    using hash_hides_neq [OF _ h] by blast
  show "\<exists>r h. users db' = users db @ [r] \<and>
             is_active r = Some True \<and> trial_used r = Some False \<and>
             registration_date r = Some now \<and>
             bcrypt_hash ev (password b) 10 = Inr h \<and> password_hash r = h \<and>
             (hash_hides ev \<longrightarrow> Some (password_hash r) \<noteq> password b)"
    using h hide unfolding db'
    by (simp add: insert_user_explicit_def Let_def)
qed

theorem registration_inserts_row_witness:
  "(\<exists>r. users (snd (register_v1 demo_env 10 Map.empty empty_db demo_body))
           = users empty_db @ [r] \<and>
         is_active r = is_active_default demo_schema \<and>
         trial_used r = trial_used_default demo_schema \<and>
         registration_date r = registration_date_default demo_schema 10 \<and>
         bcrypt_hash demo_env (password demo_body) 10 = Inr (password_hash r) \<and>
         Some (password_hash r) \<noteq> password demo_body) \<and>
   (\<exists>r. users (snd (register_v2 demo_env 10 Map.empty empty_db demo_body))
           = users empty_db @ [r] \<and>
         is_active r = is_active_default demo_schema \<and>
         trial_used r = trial_used_default demo_schema \<and>
         registration_date r = registration_date_default demo_schema 10 \<and>
         bcrypt_hash demo_env (password demo_body) 10 = Inr (password_hash r) \<and>
         Some (password_hash r) \<noteq> password demo_body) \<and>
   (\<exists>r. users (snd (register_v3 demo_env 10 Map.empty empty_db demo_body))
           = users empty_db @ [r] \<and> is_active r = Some True \<and>
         trial_used r = Some False \<and> registration_date r = Some 10 \<and>
         bcrypt_hash demo_env (password demo_body) 10 = Inr (password_hash r) \<and>
         Some (password_hash r) \<noteq> password demo_body)"
proof -
  note T = registration_inserts_row [of demo_env 10 Map.empty empty_db demo_body]
  have td: "table_defaults demo_env = demo_schema" by (simp add: demo_env_def)
  have v1: "\<exists>r. users (snd (register_v1 demo_env 10 Map.empty empty_db demo_body))
                  = users empty_db @ [r] \<and>
          is_active r = is_active_default demo_schema \<and>
          trial_used r = trial_used_default demo_schema \<and>
          registration_date r = registration_date_default demo_schema 10 \<and>
          bcrypt_hash demo_env (password demo_body) 10 = Inr (password_hash r) \<and>
          Some (password_hash r) \<noteq> password demo_body"
    using T [of "fst (register_v1 demo_env 10 Map.empty empty_db demo_body)"
                "snd (register_v1 demo_env 10 Map.empty empty_db demo_body)"]
      demo_hash_hides
    by (simp add: demo_register_v1 td)
  have v2: "\<exists>r. users (snd (register_v2 demo_env 10 Map.empty empty_db demo_body))
                  = users empty_db @ [r] \<and>
          is_active r = is_active_default demo_schema \<and>
          trial_used r = trial_used_default demo_schema \<and>
          registration_date r = registration_date_default demo_schema 10 \<and>
          bcrypt_hash demo_env (password demo_body) 10 = Inr (password_hash r) \<and>
          Some (password_hash r) \<noteq> password demo_body"
    using T [of "fst (register_v2 demo_env 10 Map.empty empty_db demo_body)"
                "snd (register_v2 demo_env 10 Map.empty empty_db demo_body)"]
      demo_hash_hides
    by (simp add: demo_register_v2 td)
  have v3: "\<exists>r. users (snd (register_v3 demo_env 10 Map.empty empty_db demo_body))
                  = users empty_db @ [r] \<and> is_active r = Some True \<and>
          trial_used r = Some False \<and> registration_date r = Some 10 \<and>
          bcrypt_hash demo_env (password demo_body) 10 = Inr (password_hash r) \<and>
          Some (password_hash r) \<noteq> password demo_body"
    using T [of "fst (register_v3 demo_env 10 Map.empty empty_db demo_body)"
                "snd (register_v3 demo_env 10 Map.empty empty_db demo_body)"]
      demo_hash_hides
    by (simp add: demo_register_v3)
  from v1 v2 v3 show ?thesis by blast
qed

text \<open>
  C8 as stated fails in the first two revisions: over a table that declares no defaults
  the registration succeeds with 200 and the inserted row has NULL in all three columns.
\<close>

theorem registration_inserts_row_counterexample:
  "status (fst (register_v1 bare_env 10 Map.empty empty_db demo_body)) = 200 \<and>
   map is_active (users (snd (register_v1 bare_env 10 Map.empty empty_db demo_body))) = [None] \<and>
   map trial_used (users (snd (register_v1 bare_env 10 Map.empty empty_db demo_body))) = [None] \<and>
   map registration_date (users (snd (register_v1 bare_env 10 Map.empty empty_db demo_body)))
     = [None] \<and>
   status (fst (register_v2 bare_env 10 Map.empty empty_db demo_body)) = 200 \<and>
   map is_active (users (snd (register_v2 bare_env 10 Map.empty empty_db demo_body))) = [None]"
  by (simp add: bare_register demo_user_def)

section \<open>From registration to profile\<close>

text \<open>
  C3. In the richer revision, the token of a successful registration, sent as
  \<open>Bearer <token>\<close> to the profile endpoint before the 24 hours are over, against the store
  the registration left and with the lookup completing, yields 200 with a user whose \<open>id\<close>
  is the \<open>id\<close> of the user object of the registration response and of the row just
  inserted. The token library is assumed to meet \<open>jwt_roundtrip\<close>.
\<close>

theorem registration_token_resolves_to_new_user:
  assumes contract: "jwt_roundtrip ev"
    and reg: "register_v3 ev t fs db b = (resp, db')" and ok: "status resp = 201"
    and tok: "obj_get ''token'' (body resp) = Some (JStr tok)"
    and soon: "t \<le> t'" "t' < t + expires_24h"
    and store_ok: "fs' 0 = None"
  shows "\<exists>u. profile_v3 ev t' fs' db' (Some (''Bearer '' @ tok))
               = (\<lparr>status = 200,
                   body = JObj [(''success'', JBool True), (''user'', profile_row_json u)]\<rparr>, db') \<and>
             obj_get ''id'' (profile_row_json u) = Some (JNum (id_col u)) \<and>
             Option.bind (obj_get ''user'' (body resp)) (obj_get ''id'') = Some (JNum (id_col u)) \<and>
             id_col (last (users db')) = id_col u"
proof -
  let ?i = "users_id_seq db"
  let ?p = "\<lparr>userId = ?i, email_claim = email b\<rparr>"
  from register_v3_success [OF reg ok] obtain h where
    db': "db' = snd (insert_user_explicit t db (fullName b) (email b) (phone b) (classLevel b) h)"
    and body: "body resp = JObj [(''success'', JBool True),
                            (''message'', JStr ''Registration successful!''),
                            (''token'', JStr (jwt_sign ev ?p (JWT_SECRET ev) (Some expires_24h) t)),
                            (''user'',
                               JObj [(''id'', JNum ?i),
                                     (''fullName'', opt_str (fullName b)),
                                     (''email'', opt_str (email b)),
                                     (''classLevel'', opt_str (classLevel b)),
                                     (''registrationDate'', JDate t)])]"
    by blast
  from body tok have tok_eq: "tok = jwt_sign ev ?p (JWT_SECRET ev) (Some expires_24h) t"
    by simp
  from contract soon have nosp: "CHR '' '' \<notin> set tok"
    and ver: "jwt_verify ev tok (JWT_SECRET ev) t' = Inr \<lparr>decoded_userId = Some ?i\<rparr>"
    unfolding jwt_roundtrip_def tok_eq by auto
  have split: "index1 (split_on CHR '' '' (''Bearer '' @ tok)) = Some tok"
    unfolding split_on_Bearer using split_on_no_sep [OF nosp] by simp
  have starts: "startsWith_Bearer (''Bearer '' @ tok)"
    by (simp add: startsWith_Bearer_def)
  have notfalsy: "\<not> falsy (Some (''Bearer '' @ tok))"
    by (simp add: falsy_def)
  obtain r where users': "users db' = users db @ [r]" and rid: "id_col r = ?i"
    and ract: "is_active r = Some True"
    unfolding db' by (simp add: insert_user_explicit_def Let_def)
  have "select_active_user_by_id db' (Some ?i) \<noteq> []"
    unfolding select_active_user_by_id_def users'
    by (rule filter_last_nonempty) (simp add: rid ract)
  then obtain u us where rows: "select_active_user_by_id db' (Some ?i) = u # us"
    by (cases "select_active_user_by_id db' (Some ?i)") auto
  then have "u \<in> set (select_active_user_by_id db' (Some ?i))" by simp
  then have uid: "id_col u = ?i"
    by (auto simp: select_active_user_by_id_def)
  have prof: "profile_v3 ev t' fs' db' (Some (''Bearer '' @ tok))
               = (\<lparr>status = 200,
                   body = JObj [(''success'', JBool True), (''user'', profile_row_json u)]\<rparr>, db')"
    unfolding profile_v3_def
    using notfalsy starts split ver store_ok rows
    by (simp add: pool_query_ok res_json_def del: split_on.simps)
  have last: "id_col (last (users db')) = ?i"
    by (simp add: users' rid)
  show ?thesis
    using prof uid last body
    by (intro exI [of _ u]) (simp add: profile_row_json_def)
qed

theorem registration_token_resolves_to_new_user_witness:
  "status (fst (register_v3 demo_env 10 Map.empty empty_db demo_body)) = 201 \<and>
   obj_get ''token'' (body (fst (register_v3 demo_env 10 Map.empty empty_db demo_body)))
     = Some (JStr ''jwt.x'') \<and>
   (\<exists>u. fst (profile_v3 demo_env 11 Map.empty
                (snd (register_v3 demo_env 10 Map.empty empty_db demo_body))
                (Some ''Bearer jwt.x''))
          = \<lparr>status = 200,
             body = JObj [(''success'', JBool True), (''user'', profile_row_json u)]\<rparr> \<and>
        id_col u = 1)"
proof -
  let ?resp = "fst (register_v3 demo_env 10 Map.empty empty_db demo_body)"
  let ?db' = "snd (register_v3 demo_env 10 Map.empty empty_db demo_body)"
  have reg: "register_v3 demo_env 10 Map.empty empty_db demo_body = (?resp, ?db')" by simp
  have ok: "status ?resp = 201" by (simp add: demo_register_v3)
  have tok: "obj_get ''token'' (body ?resp) = Some (JStr ''jwt.x'')"
    by (simp add: demo_register_v3)
  have soon: "(10::nat) \<le> 11" "(11::nat) < 10 + expires_24h" by (simp_all add: expires_24h_def)
  have store_ok: "(Map.empty :: faults) 0 = None" by simp
  from registration_token_resolves_to_new_user
         [OF demo_jwt_roundtrip reg ok tok soon store_ok]
  obtain u where
    p: "profile_v3 demo_env 11 Map.empty ?db' (Some (''Bearer '' @ ''jwt.x''))
          = (\<lparr>status = 200,
              body = JObj [(''success'', JBool True), (''user'', profile_row_json u)]\<rparr>, ?db')"
    and i: "Option.bind (obj_get ''user'' (body ?resp)) (obj_get ''id'') = Some (JNum (id_col u))"
    by blast
  from i have "id_col u = 1" by (simp add: demo_register_v3)
  with p ok tok show ?thesis by auto
qed

section \<open>Requests no route matches\<close>

text \<open>Route matching evaluated: the literal routes, and the paths of the examples.\<close>

lemma route_matches_literals:
  "route_matches ''/health'' p
     = (map lower_char p = ''/health'' \<or> map lower_char p = ''/health/'')"
  "route_matches ''/api/test-db'' p
     = (map lower_char p = ''/api/test-db'' \<or> map lower_char p = ''/api/test-db/'')"
  "route_matches ''/api/auth/register'' p
     = (map lower_char p = ''/api/auth/register'' \<or> map lower_char p = ''/api/auth/register/'')"
  "route_matches ''/api/auth/login'' p
     = (map lower_char p = ''/api/auth/login'' \<or> map lower_char p = ''/api/auth/login/'')"
  "route_matches ''/api/courses'' p
     = (map lower_char p = ''/api/courses'' \<or> map lower_char p = ''/api/courses/'')"
  "route_matches ''/api/user/profile'' p
     = (map lower_char p = ''/api/user/profile'' \<or> map lower_char p = ''/api/user/profile/'')"
  "route_matches ''/api/admin/users'' p
     = (map lower_char p = ''/api/admin/users'' \<or> map lower_char p = ''/api/admin/users/'')"
  by (simp_all add: route_matches_def lower_char_def)

lemma lower_char_examples:
  "map lower_char ''/nope'' = ''/nope''"
  "map lower_char ''/health/'' = ''/health/''"
  "map lower_char ''/Health'' = ''/health''"
  "map lower_char ''/api/courses'' = ''/api/courses''"
  "map lower_char ''/API/AUTH/LOGIN'' = ''/api/auth/login''"
  "map lower_char ''/health//'' = ''/health//''"
  by (simp_all add: lower_char_def)

text \<open>
  A trailing slash, another case and a query string all reach the route; a second slash
  does not.
\<close>

lemma routes_ignore_case_slash_and_query:
  "fst (app_v2 ev now fs db (get_url ''/health/'')) = Some (health_v2 now)"
  "fst (app_v3 ev now fs db (get_url ''/Health?probe=1'')) = Some (health_v3 ev now)"
  "fst (app_v3 ev now fs db (get_url ''/api/courses?x=1'')) = Some (fst (courses_v3 fs db))"
  "fst (app_v1 ev now fs db
         \<lparr>req_method = POST, originalUrl = ''/API/AUTH/LOGIN'', authorization = None, body_of = b\<rparr>)
     = Some (fst (login_v1 ev now fs db b))"
  "fst (app_v3 ev now fs db (get_url ''/health//'')) = Some (catch_all_v3 ''/health//'')"
  by (simp_all add: app_v1_def app_v2_def app_v3_def app_get_def app_post_def get_url_def path_def
        route_matches_literals lower_char_examples split_beta del: list.map)





section \<open>Store failures\<close>

text \<open>
  When a store call rejects, the registration, login, course, admin and test handlers of
  every revision answer 500 from their catch block.
\<close>

lemma store_failure_500_v1:
  assumes "fs 0 = Some e"
  shows "status (fst (register_v1 ev now fs db b)) = 500"
    and "status (fst (login_v1 ev now fs db b)) = 500"
    and "status (fst (courses_v1 fs db)) = 500"
  using assms
  by (simp_all add: register_v1_def login_v1_def courses_v1_def pool_query_fail
        register_failed_v1_def login_failed_v1_def res_status_json_def)

lemma store_failure_500_v2:
  assumes "fs 0 = Some e"
  shows "status (fst (register_v2 ev now fs db b)) = 500"
    and "status (fst (login_v2 ev now fs db b)) = 500"
    and "status (fst (courses_v2 fs db)) = 500"
    and "status (fst (test_db_v2 now fs db)) = 500"
  using assms
  by (simp_all add: register_v2_def login_v2_def courses_v2_def test_db_v2_def pool_query_fail
        register_failed_v2_def login_failed_v2_def res_status_json_def)

lemma store_failure_500_v3:
  assumes "fs 0 = Some e"
  shows "\<not> falsy (fullName b) \<and> \<not> falsy (email b) \<and> \<not> falsy (phone b) \<and>
         \<not> falsy (classLevel b) \<and> \<not> falsy (password b) \<Longrightarrow>
           fst (register_v3 ev now fs db b) = register_failed_v3 ev e"
    and "\<not> falsy (email b) \<and> \<not> falsy (password b) \<Longrightarrow>
           fst (login_v3 ev now fs db b) = login_failed_v3 e"
    and "status (fst (courses_v3 fs db)) = 500"
    and "status (fst (admin_users_v3 fs db)) = 500"
    and "status (fst (test_db_v3 now fs db)) = 500"
    and "status (register_failed_v3 ev e) = 500"
    and "status (login_failed_v3 e) = 500"
  using assms
  by (simp_all add: register_v3_def login_v3_def courses_v3_def admin_users_v3_def
        test_db_v3_def pool_query_fail register_failed_v3_def login_failed_v3_def
        res_status_json_def)

lemma insert_failure_500:
  assumes "fs 0 = None" and "fs 1 = Some e" 
    and "select_id_by_email db (email b) = []" and "bcrypt_hash ev (password b) 10 = Inr h"
  shows "register_v1 ev now fs db b = (register_failed_v1, db)"
    and "register_v2 ev now fs db b = (register_failed_v2 e, db)"
    and "\<not> falsy (fullName b) \<and> \<not> falsy (email b) \<and> \<not> falsy (phone b) \<and>
         \<not> falsy (classLevel b) \<and> \<not> falsy (password b) \<Longrightarrow>
           register_v3 ev now fs db b = (register_failed_v3 ev e, db)"
  using assms
  by (simp_all add: register_v1_def register_v2_def register_v3_def pool_query_ok
        pool_query_fail)

text \<open>
  C6. The profile handler does not: its single catch block answers 401 "Invalid or expired
  token" also when the token verified and it was the user lookup that rejected. Here the
  token \<open>jwt.x\<close> verifies to user 1, who is active, and the store call fails.
\<close>

theorem profile_v3_store_failure_is_401:
  "jwt_verify demo_env ''jwt.x'' (JWT_SECRET demo_env) 0 = Inr \<lparr>decoded_userId = Some 1\<rparr> \<and>
   select_active_user_by_id demo_db (Some 1) = [demo_user] \<and>
   profile_v3 demo_env 0 [0 \<mapsto> store_down] demo_db (Some ''Bearer jwt.x'')
     = (invalid_token_v3, demo_db) \<and>
   status invalid_token_v3 = 401 \<and>
   body invalid_token_v3
     = JObj [(''success'', JBool False), (''error'', JStr ''Invalid or expired token'')]"
  by (simp add: profile_v3_def falsy_def startsWith_Bearer_def demo_env_def demo_jwt_verify_def
        pool_query_def select_active_user_by_id_def demo_db_def demo_user_def
        invalid_token_v3_def res_status_json_def)

end
